theory Spec2Isabelle
  imports Main "HOL-Library.AList"
begin

section \<open>httpUi: a shallow embedding of the request lifecycle\<close>

text \<open>
  The library wraps an AJAX call with a loading indicator and alert banners. The
  embedding follows the documented copy of the library (the file with the JSDoc
  comments and \<open>queryUi.addResponse\<close>); \<open>src/httpUi.js\<close> is an older copy of the
  same classes whose differences are noted where they matter.

  JavaScript values are a datatype, objects are association lists in insertion order
  (\<open>map_of\<close> reads a property, \<open>AList.update\<close> assigns one), a thrown exception is the
  \<open>Inl\<close> of a sum, and every effect on the page or the network is an event of a
  trace. Numbers are integers (status codes and counters are all the library
  computes with). The parameters of a request have the types of the JSDoc of
  \<open>request\<close>; what the network answers, and when, is an input of the model, and the
  caller's callbacks return normally and leave the descriptor they are handed as
  it is.
\<close>

subsection \<open>Strings\<close>

text \<open>
  Strings are lists of characters. \<open>String.prototype.replace\<close> with a one-character
  global pattern and a replacement text without \<open>$\<close>: every occurrence of the character
  becomes the replacement. The five characters \<open>escapeHtml\<close> replaces are ASCII, one
  unit each in UTF-16 as in UTF-8, and no part of another character's encoding.
\<close>

definition replace_global :: "char \<Rightarrow> string \<Rightarrow> string \<Rightarrow> string" where
  "replace_global c r s = concat (map (\<lambda>x. if x = c then r else [x]) s)"

text \<open>\<open>ui.escapeHtml\<close>: five replacements, chained in the source's order.\<close>

definition escapeHtml :: "string \<Rightarrow> string" where
  "escapeHtml unsafe =
     replace_global (CHR 0x27) ''&#039;''
       (replace_global (CHR 0x22) ''&quot;''
         (replace_global CHR ''>'' ''&gt;''
           (replace_global CHR ''<'' ''&lt;''
             (replace_global CHR ''&'' ''&amp;'' unsafe))))"

text \<open>The entity of one character, as the description of \<open>escapeHtml\<close> lists them.\<close>

definition html_entity :: "char \<Rightarrow> string" where
  "html_entity c =
     (if c = CHR ''&'' then ''&amp;''
      else if c = CHR ''<'' then ''&lt;''
      else if c = CHR ''>'' then ''&gt;''
      else if c = CHR 0x22 then ''&quot;''
      else if c = CHR 0x27 then ''&#039;''
      else [c])"

subsection \<open>Numbers as text\<close>

text \<open>
  \<open>Number.prototype.toString(radix)\<close> on a non-negative integer, for the radices the
  library uses: 10 (template literals) and 16 (the random suffix of a request id).
  The digits cover the radices up to 16.
\<close>

definition digit_char :: "nat \<Rightarrow> char" where
  "digit_char d = (if d < 16 then ''0123456789abcdef'' ! d else CHR ''?'')"

function toString_radix :: "nat \<Rightarrow> nat \<Rightarrow> string" where
  "toString_radix b n =
     (if n < b \<or> b < 2 then [digit_char n]
      else toString_radix b (n div b) @ [digit_char (n mod b)])"
  by pat_completeness auto
termination
  by (relation "measure snd") auto

definition decimal :: "nat \<Rightarrow> string" where
  "decimal n = toString_radix 10 n"

definition hex :: "nat \<Rightarrow> string" where
  "hex n = toString_radix 16 n"

definition string_of_int :: "int \<Rightarrow> string" where
  "string_of_int i = (if i < 0 then ''-'' @ decimal (nat (- i)) else decimal (nat i))"

text \<open>
  \<open>String.prototype.indexOf\<close>: the position of the first occurrence, or \<open>-1\<close>.
\<close>

fun indexOf_at :: "string \<Rightarrow> string \<Rightarrow> nat \<Rightarrow> int" where
  "indexOf_at [] needle i = (if needle = [] then int i else - 1)"
| "indexOf_at (c # cs) needle i =
     (if take (length needle) (c # cs) = needle then int i
      else indexOf_at cs needle (Suc i))"

definition indexOf :: "string \<Rightarrow> string \<Rightarrow> int" where
  "indexOf s needle = indexOf_at s needle 0"

definition endsWith :: "string \<Rightarrow> string \<Rightarrow> bool" where
  "endsWith s suffix =
     (length suffix \<le> length s \<and> drop (length s - length suffix) s = suffix)"

text \<open>\<open>Array.prototype.join\<close> on texts.\<close>

fun join :: "string \<Rightarrow> string list \<Rightarrow> string" where
  "join sep [] = []"
| "join sep [x] = x"
| "join sep (x # y # ys) = x @ sep @ join sep (y # ys)"

subsection \<open>The page\<close>

text \<open>
  What \<open>serializeForm\<close> reads of the page: an element's node name and its
  \<open>input, select, textarea\<close> descendants in document order, each with the
  properties the function inspects. A node that is not an \<open>HTMLElement\<close> (the
  document, a fragment, an SVG element) still takes a loader or an alert.
\<close>

record option_el =
  o_value :: string
  o_selected :: bool

record control =
  c_tagName :: string
  c_type :: string
  c_name :: string
  c_value :: string
  c_checked :: bool
  c_multiple :: bool
  c_options :: "option_el list"

record element =
  e_nodeName :: string
  e_controls :: "control list"

datatype node = HTMLElement element | OtherNode string

subsection \<open>JavaScript values\<close>

datatype formdata = FormData_of element | FormData_entries "(string \<times> string) list"

datatype jsval =
    JUndefined
  | JNull
  | JBool bool
  | JNum int
  | JStr string
  | JArr "jsval list"
  | JObj "(string \<times> jsval) list"
  | JFormData formdata

datatype js_error = TypeError | SyntaxError

fun typeof :: "jsval \<Rightarrow> string" where
  "typeof JUndefined = ''undefined''"
| "typeof JNull = ''object''"
| "typeof (JBool b) = ''boolean''"
| "typeof (JNum n) = ''number''"
| "typeof (JStr s) = ''string''"
| "typeof (JArr xs) = ''object''"
| "typeof (JObj kvs) = ''object''"
| "typeof (JFormData fd) = ''object''"

fun truthy :: "jsval \<Rightarrow> bool" where
  "truthy JUndefined = False"
| "truthy JNull = False"
| "truthy (JBool b) = b"
| "truthy (JNum n) = (n \<noteq> 0)"
| "truthy (JStr s) = (s \<noteq> [])"
| "truthy (JArr xs) = True"
| "truthy (JObj kvs) = True"
| "truthy (JFormData fd) = True"

text \<open>\<open>x instanceof FormData\<close>.\<close>

fun instanceof_FormData :: "jsval \<Rightarrow> bool" where
  "instanceof_FormData (JFormData fd) = True"
| "instanceof_FormData v = False"

text \<open>
  \<open>HttpUi.isObject\<close>: \<open>typeof x !== 'function' && Object(x) === x\<close>. No value of
  \<open>jsval\<close> is a function, and \<open>Object(x) === x\<close> holds of objects only.
\<close>

fun isObject :: "jsval \<Rightarrow> bool" where
  "isObject (JArr xs) = True"
| "isObject (JObj kvs) = True"
| "isObject (JFormData fd) = True"
| "isObject v = False"

text \<open>
  \<open>x?.message\<close> on a value whose \<open>typeof\<close> is \<open>object\<close>: the property of a plain
  object, \<open>undefined\<close> otherwise.
\<close>

fun message_of :: "jsval \<Rightarrow> jsval" where
  "message_of (JObj kvs) = (case map_of kvs ''message'' of Some v \<Rightarrow> v | None \<Rightarrow> JUndefined)"
| "message_of v = JUndefined"

text \<open>\<open>x.errors\<close> on a value that is neither \<open>undefined\<close> nor \<open>null\<close>.\<close>

fun errors_of :: "jsval \<Rightarrow> jsval" where
  "errors_of (JObj kvs) = (case map_of kvs ''errors'' of Some v \<Rightarrow> v | None \<Rightarrow> JUndefined)"
| "errors_of v = JUndefined"

text \<open>
  The properties every plain object inherits from \<open>Object.prototype\<close>. Read through an
  object that has no property of its own under the name, each is a function or (for
  \<open>__proto__\<close>) the prototype itself: truthy, and not a string. An assignment under
  \<open>__proto__\<close> of a value that is not an object goes to the setter and stores nothing;
  under the other names it creates a property of the object's own.
\<close>

definition object_prototype_names :: "string list" where
  "object_prototype_names =
     [''constructor'', ''__defineGetter__'', ''__defineSetter__'', ''hasOwnProperty'',
      ''__lookupGetter__'', ''__lookupSetter__'', ''isPrototypeOf'', ''propertyIsEnumerable'',
      ''toString'', ''valueOf'', ''__proto__'', ''toLocaleString'']"

text \<open>
  The text of a value in a string concatenation. An array is its elements joined by
  commas, \<open>undefined\<close> and \<open>null\<close> elements empty. A plain object is
  \<open>[object Object]\<close>, unless it has a \<open>toString\<close> property of its own: no value here is
  callable, the inherited \<open>valueOf\<close> returns the object, and the conversion throws.
\<close>

primrec to_text :: "jsval \<Rightarrow> js_error + string"
  and element_texts :: "jsval list \<Rightarrow> js_error + string list" where
  "to_text JUndefined = Inr ''undefined''"
| "to_text JNull = Inr ''null''"
| "to_text (JBool b) = Inr (if b then ''true'' else ''false'')"
| "to_text (JNum n) = Inr (string_of_int n)"
| "to_text (JStr s) = Inr s"
| "to_text (JArr xs) =
     (case element_texts xs of Inl e \<Rightarrow> Inl e | Inr ts \<Rightarrow> Inr (join '','' ts))"
| "to_text (JObj kvs) =
     (if ''toString'' \<in> set (map fst kvs) then Inl TypeError else Inr ''[object Object]'')"
| "to_text (JFormData fd) = Inr ''[object FormData]''"
| "element_texts [] = Inr []"
| "element_texts (v # vs) =
     (case (if v = JUndefined \<or> v = JNull then Inr [] else to_text v) of
        Inl e \<Rightarrow> Inl e
      | Inr t \<Rightarrow> (case element_texts vs of Inl e \<Rightarrow> Inl e | Inr ts \<Rightarrow> Inr (t # ts)))"

text \<open>A function supplied by the caller. Calling it is an event; it returns normally.\<close>

datatype callback = Callback string

text \<open>
  What the transports hand back, read through the four properties the library touches:
  jQuery's \<open>jqXHR\<close>, the \<open>Response\<close> of \<open>fetch\<close>, an \<open>Error\<close> thrown by \<open>fetch\<close> or
  \<open>response.json()\<close>, and the object literal \<open>{data, status, statusText}\<close> thrown by
  the fetch adapter. \<open>None\<close> is a property the object does not have.
\<close>

record xhr =
  x_data :: jsval
  x_status :: "int option"
  x_statusText :: "string option"
  x_responseText :: "string option"

subsection \<open>The notifier and the descriptor\<close>

record ui =
  ui_id :: string
  ui_context :: node
  ui_contextLock :: node
  ui_contextStatus :: node

record queryUi =
  q_id :: "string option"
  q_url :: "string option"
  q_method :: string
  q_headers :: "(string \<times> jsval) list"
  q_data :: jsval
  q_onSuccess :: "callback option"
  q_onError :: "callback option"
  q_context :: node
  q_contextLock :: "node option"
  q_contextStatus :: "node option"
  q_ui :: "ui option"
  q_requestData :: jsval
  q_response :: "xhr option"

text \<open>
  The parameter object of \<open>request\<close>, typed as its JSDoc types it; \<open>None\<close> is a
  property the caller left out. A bare string is a URL.
\<close>

record params =
  p_id :: "string option"
  p_url :: "string option"
  p_method :: "string option"
  p_headers :: "(string \<times> jsval) list option"
  p_data :: "jsval option"
  p_onSuccess :: "callback option"
  p_onError :: "callback option"
  p_context :: "node option"
  p_contextLock :: "node option"
  p_contextStatus :: "node option"

datatype request_arg = Url string | Params params

text \<open>
  What a call of \<open>window.jQuery.ajax\<close> delivers: the arguments of the \<open>then\<close> handler
  (the data and the \<open>jqXHR\<close>) or of the \<open>fail\<close> handler. What a call of \<open>fetch\<close>
  delivers: a rejection, or a response with its status, its status text and what
  \<open>response.json()\<close> makes of its body (a value, or a rejection for a body that is not
  JSON).
\<close>

datatype jq_outcome = JqDone jsval xhr | JqFail xhr

datatype fetch_body = JsonBody jsval | NotJson

datatype fetch_outcome = FetchFailed | FetchResponse int string fetch_body

text \<open>
  The repository holds two copies of the library. They differ in how a result is
  attached to the descriptor: the documented copy calls \<open>queryUi.addResponse\<close>, the
  older copy \<open>src/httpUi.js\<close> assigns in place.
\<close>

datatype copy = Documented | Older

text \<open>
  What \<open>document.querySelector\<close> does with the selector \<open>hideLoader\<close> builds from the id
  of a request: it throws a \<open>SyntaxError\<close> on a text that is not a selector (the id
  \<open>req.1\<close>), finds nothing (the id \<open>user.save\<close> asks for two classes), finds the loader
  of the request, or finds some other element.
\<close>

datatype lookup = SelectorThrows | NoMatch | FoundLoader | FoundOther

text \<open>
  The host environment at the time of the call: which copy of the library the page
  has loaded, \<open>new Date().getTime()\<close>, \<open>Math.floor(Math.random() * 0x75bcd15)\<close>, the text
  of \<open>Math.random() * 1000\<close>, the content of the \<open>csrf-token\<close> meta tag if the page has
  one, \<open>document.body\<close>, \<open>JSON.stringify\<close> on objects, \<open>JSON.parse\<close> (it throws on a
  text that is not JSON: \<open>None\<close>), what \<open>jQuery.ajax\<close> delivers when \<open>window.jQuery\<close> is
  loaded, and what \<open>fetch\<close> delivers. The last three fields are the browser's answers
  about the page: \<open>document.querySelector\<close> on a selector, and, for an alert built
  with a given id in its markup, whether \<open>alert.querySelector('.btn-close')\<close> and
  \<open>alert.querySelector('.alert .btn-detailed')\<close> find their button (an id with a
  double quote in it can cut the markup short).
\<close>

record env =
  env_copy :: copy
  env_now :: nat
  env_random :: nat
  env_random_text :: string
  env_csrf :: "string option"
  env_body :: element
  env_stringify :: "jsval \<Rightarrow> string"
  env_parse :: "string \<Rightarrow> jsval option"
  env_jQuery :: "jq_outcome option"
  env_fetch :: fetch_outcome
  env_querySelector :: "string \<Rightarrow> lookup"
  env_close_button :: "string \<Rightarrow> bool"
  env_detail_button :: "string \<Rightarrow> bool"

subsection \<open>Events\<close>

text \<open>
  \<open>HideLoader\<close> is the loader of the id fading out, \<open>HideElement\<close> another element
  that the selector found doing so. \<open>AlertExtended\<close> carries the markup passed to
  \<open>showAlert\<close>, \<open>AlertUnexpected\<close> the escaped error text of the markup.
\<close>

datatype event =
    RemAlerts node
  | DisplayLoader node string
  | HideLoader string
  | HideElement string
  | Ajax queryUi
  | Fetch queryUi
  | OnSuccess callback node jsval queryUi
  | OnError callback node xhr queryUi
  | AlertExtended node string
  | AlertUnexpected node string
  | ErrorReport string string string
  | Resolve queryUi
  | Reject queryUi

type_synonym 'a result = "event list \<times> (js_error + 'a)"

subsection \<open>class queryUi\<close>

text \<open>
  The constructor: a string becomes \<open>{url: params}\<close>, then the defaults are spread
  under the caller's properties, so a property the caller gives replaces the default
  as a whole (\<open>headers\<close> included).
\<close>

definition params_empty :: params where
  "params_empty =
     \<lparr>p_id = None, p_url = None, p_method = None, p_headers = None, p_data = None,
      p_onSuccess = None, p_onError = None, p_context = None, p_contextLock = None,
      p_contextStatus = None\<rparr>"

fun params_of :: "request_arg \<Rightarrow> params" where
  "params_of (Url u) = params_empty\<lparr>p_url := Some u\<rparr>"
| "params_of (Params p) = p"

definition default_headers :: "env \<Rightarrow> (string \<times> jsval) list" where
  "default_headers env =
     [(''Accept'', JStr ''application/json, text/javascript''),
      (''X-Requested-With'', JStr ''XMLHttpRequest''),
      (''X-CSRF-TOKEN'', (case env_csrf env of Some t \<Rightarrow> JStr t | None \<Rightarrow> JUndefined))]"

definition queryUi_new :: "env \<Rightarrow> request_arg \<Rightarrow> queryUi" where
  "queryUi_new env arg =
     (let params = params_of arg in
      \<lparr>q_id = p_id params,
       q_url = p_url params,
       q_method = (case p_method params of Some m \<Rightarrow> m | None \<Rightarrow> ''GET''),
       q_headers = (case p_headers params of Some h \<Rightarrow> h | None \<Rightarrow> default_headers env),
       q_data = (case p_data params of Some d \<Rightarrow> d | None \<Rightarrow> JUndefined),
       q_onSuccess = p_onSuccess params,
       q_onError = p_onError params,
       q_context = (case p_context params of Some c \<Rightarrow> c | None \<Rightarrow> HTMLElement (env_body env)),
       q_contextLock = p_contextLock params,
       q_contextStatus = p_contextStatus params,
       q_ui = None,
       q_requestData = JUndefined,
       q_response = None\<rparr>)"

text \<open>
  \<open>queryUi.addResponse\<close> of the documented copy; it is stated on every extension of the
  record.
\<close>

definition addResponse :: "'a queryUi_scheme \<Rightarrow> xhr \<Rightarrow> jsval \<Rightarrow> 'a queryUi_scheme" where
  "addResponse this responseObject responseData =
     this\<lparr>q_requestData := q_data this,
          q_response := Some responseObject,
          q_data := responseData\<rparr>"

text \<open>
  Attaching a result. On success the documented copy calls
  \<open>query.addResponse(response, data)\<close>, the older copy assigns \<open>query.data = data\<close> and
  \<open>query.response = response\<close>. On failure the documented copy calls
  \<open>query.addResponse(jqXHR, jqXHR.data)\<close>, the older copy assigns
  \<open>query.response = jqXHR\<close> only.
\<close>

definition attach_success :: "copy \<Rightarrow> 'a queryUi_scheme \<Rightarrow> xhr \<Rightarrow> jsval \<Rightarrow> 'a queryUi_scheme" where
  "attach_success c query response data =
     (case c of
        Documented \<Rightarrow> addResponse query response data
      | Older \<Rightarrow> query\<lparr>q_data := data, q_response := Some response\<rparr>)"

definition attach_failure :: "copy \<Rightarrow> 'a queryUi_scheme \<Rightarrow> xhr \<Rightarrow> 'a queryUi_scheme" where
  "attach_failure c query jqXHR =
     (case c of
        Documented \<Rightarrow> addResponse query jqXHR (x_data jqXHR)
      | Older \<Rightarrow> query\<lparr>q_response := Some jqXHR\<rparr>)"

subsection \<open>class ui\<close>

definition errorsMap :: "(string \<times> string) list" where
  "errorsMap =
     [(''error'', ''&#9888; ''),
      (''0'', ''An error occurred: Could not connect to the server, please check your internet connection.''),
      (''400'', ''An error occurred: 400 - request failed''),
      (''404'', ''An error occurred: 404 - page not found or address changed''),
      (''500'', ''The server encountered a 500 - unknown error''),
      (''parsererror'', ''An error occurred: parser - the server returned an invalid JSON request''),
      (''timeout'', ''An error occurred: timeout - the request timed out too long''),
      (''unknown'', ''An error occurred: '')]"

text \<open>
  The constructor, applied to a descriptor. \<open>params?.context\<close> is never null on a
  descriptor, so the \<open>document.body\<close> default is not taken.
\<close>

definition ui_new :: "env \<Rightarrow> queryUi \<Rightarrow> ui" where
  "ui_new env params =
     (let context = q_context params in
      \<lparr>ui_id = (case q_id params of Some i \<Rightarrow> i
                 | None \<Rightarrow> ''0'' @ decimal (env_now env) @ env_random_text env),
       ui_context = context,
       ui_contextLock = (case q_contextLock params of Some c \<Rightarrow> c | None \<Rightarrow> context),
       ui_contextStatus = (case q_contextStatus params of Some c \<Rightarrow> c | None \<Rightarrow> context)\<rparr>)"

text \<open>
  \<open>displayLoader(context, ajaxId)\<close>: both arguments are optional, and an empty id is
  falsy. The event is the loader node, of class \<open>aj-loader-\<close> and the id, prepended to
  the context.
\<close>

definition displayLoader :: "ui \<Rightarrow> node option \<Rightarrow> string option \<Rightarrow> event list" where
  "displayLoader this context ajaxId =
     [DisplayLoader (case context of Some c \<Rightarrow> c | None \<Rightarrow> ui_contextLock this)
        (case ajaxId of None \<Rightarrow> ui_id this | Some i \<Rightarrow> if i = [] then ui_id this else i)]"

text \<open>
  \<open>hideLoader(ajaxId)\<close> looks the loader up with
  \<open>document.querySelector('.aj-loader-' + ajaxId)\<close>, the id as it is, and fades what it
  finds. The lookup throws on a text that is not a selector, and does nothing when
  nothing matches.
\<close>

definition loader_selector :: "string \<Rightarrow> string" where
  "loader_selector ajaxId = ''.aj-loader-'' @ ajaxId"

definition hideLoader :: "env \<Rightarrow> ui \<Rightarrow> string option \<Rightarrow> unit result" where
  "hideLoader env this ajaxId =
     (let i = (case ajaxId of None \<Rightarrow> ui_id this | Some i \<Rightarrow> if i = [] then ui_id this else i)
      in case env_querySelector env (loader_selector i) of
           SelectorThrows \<Rightarrow> ([], Inl SyntaxError)
         | NoMatch \<Rightarrow> ([], Inr ())
         | FoundLoader \<Rightarrow> ([HideLoader i], Inr ())
         | FoundOther \<Rightarrow> ([HideElement (loader_selector i)], Inr ()))"

definition remAlerts :: "ui \<Rightarrow> event list" where
  "remAlerts this = [RemAlerts (ui_contextStatus this)]"

definition status_text :: "int option \<Rightarrow> string" where
  "status_text s = (case s of Some n \<Rightarrow> string_of_int n | None \<Rightarrow> ''undefined'')"

definition text_or_undefined :: "string option \<Rightarrow> string" where
  "text_or_undefined s = (case s of Some t \<Rightarrow> t | None \<Rightarrow> ''undefined'')"

text \<open>
  \<open>#getErrorText\<close> reads \<open>errorsMap\<close>, a plain object, under the status and then under
  the status text. A status text that names a property of \<open>Object.prototype\<close> reads the
  inherited member, which is not a string: \<open>None\<close>.
\<close>

definition getErrorText :: "xhr \<Rightarrow> string option" where
  "getErrorText response =
     (case map_of errorsMap (status_text (x_status response)) of
        Some t \<Rightarrow> Some t
      | None \<Rightarrow>
          if status_text (x_status response) \<in> set object_prototype_names then None
          else
          (case map_of errorsMap (text_or_undefined (x_statusText response)) of
             Some t \<Rightarrow> Some t
           | None \<Rightarrow>
               if text_or_undefined (x_statusText response) \<in> set object_prototype_names
               then None
               else Some (''An error occurred: '' @ status_text (x_status response) @ '' ''
                            @ text_or_undefined (x_statusText response))))"

text \<open>
  \<open>showAlert(html, type)\<close> prepends the alert to the status context and then attaches
  the dismiss handler to \<open>alert.querySelector('.btn-close')\<close>, which throws a
  \<open>TypeError\<close> when the button is not found. The markup is passed as the event it
  makes at a context.
\<close>

definition showAlert :: "env \<Rightarrow> ui \<Rightarrow> (node \<Rightarrow> event) \<Rightarrow> unit result" where
  "showAlert env this alert =
     ([alert (ui_contextStatus this)],
      if env_close_button env (ui_id this) then Inr () else Inl TypeError)"

text \<open>
  \<open>flatDeep\<close>: the inner \<open>flat\<close> walks \<open>Object.entries\<close> of its argument; a value whose
  \<open>typeof\<close> is \<open>object\<close> is walked in turn (\<open>Object.entries(null)\<close> throws), any other
  value is pushed. An object's list has its properties in the order of enumeration.
\<close>

primrec flat_value :: "jsval \<Rightarrow> js_error + jsval list"
  and flat_values :: "jsval list \<Rightarrow> js_error + jsval list"
  and flat_entries :: "(string \<times> jsval) list \<Rightarrow> js_error + jsval list"
  and flat_entry :: "string \<times> jsval \<Rightarrow> js_error + jsval list" where
  "flat_value JUndefined = Inr [JUndefined]"
| "flat_value JNull = Inl TypeError"
| "flat_value (JBool b) = Inr [JBool b]"
| "flat_value (JNum n) = Inr [JNum n]"
| "flat_value (JStr s) = Inr [JStr s]"
| "flat_value (JArr xs) = flat_values xs"
| "flat_value (JObj kvs) = flat_entries kvs"
| "flat_value (JFormData fd) = Inr []"
| "flat_values [] = Inr []"
| "flat_values (v # vs) =
     (case flat_value v of
        Inl e \<Rightarrow> Inl e
      | Inr a \<Rightarrow> (case flat_values vs of Inl e \<Rightarrow> Inl e | Inr b \<Rightarrow> Inr (a @ b)))"
| "flat_entries [] = Inr []"
| "flat_entries (kv # kvs) =
     (case flat_entry kv of
        Inl e \<Rightarrow> Inl e
      | Inr a \<Rightarrow> (case flat_entries kvs of Inl e \<Rightarrow> Inl e | Inr b \<Rightarrow> Inr (a @ b)))"
| "flat_entry (k, v) = flat_value v"

text \<open>
  \<open>flatDeep(array)\<close> on the argument itself: the entries of a string are its
  characters, a number, a boolean and a \<open>FormData\<close> have none.
\<close>

fun flatDeep :: "jsval \<Rightarrow> js_error + jsval list" where
  "flatDeep JUndefined = Inl TypeError"
| "flatDeep JNull = Inl TypeError"
| "flatDeep (JBool b) = Inr []"
| "flatDeep (JNum n) = Inr []"
| "flatDeep (JStr s) = Inr (map (\<lambda>c. JStr [c]) s)"
| "flatDeep (JArr xs) = flat_values xs"
| "flatDeep (JObj kvs) = flat_entries kvs"
| "flatDeep (JFormData fd) = Inr []"

text \<open>\<open>Object.keys(x).length\<close> on a value that is neither \<open>undefined\<close> nor \<open>null\<close>.\<close>

fun keys_length :: "jsval \<Rightarrow> nat" where
  "keys_length (JStr s) = length s"
| "keys_length (JArr xs) = length xs"
| "keys_length (JObj kvs) = length kvs"
| "keys_length v = 0"

text \<open>
  The text of a flattened value in \<open>join\<close>: \<open>undefined\<close> is empty; the values are
  not objects, so the conversion does not throw.
\<close>

fun item_text :: "jsval \<Rightarrow> string" where
  "item_text (JBool b) = (if b then ''true'' else ''false'')"
| "item_text (JNum n) = string_of_int n"
| "item_text (JStr s) = s"
| "item_text v = []"

definition errorsToUlTree :: "jsval \<Rightarrow> js_error + string" where
  "errorsToUlTree errors =
     (if keys_length errors = 0 then Inr []
      else (case flatDeep errors of
              Inl e \<Rightarrow> Inl e
            | Inr items \<Rightarrow>
                Inr (''<ul><li>'' @ join ''</li><li>'' (map item_text items) @ ''</li></ul>'')))"

text \<open>
  \<open>showAlertExtended(json)\<close> builds
  \<open>'<strong>' + json?.message + '</strong>' + (json.errors ? errorsToUlTree(json.errors) : '')\<close>
  and shows it. \<open>json.errors\<close> throws on \<open>undefined\<close> and \<open>null\<close>, and the markup is
  built before anything is shown.
\<close>

definition showAlertExtended :: "env \<Rightarrow> ui \<Rightarrow> jsval \<Rightarrow> unit result" where
  "showAlertExtended env this json =
     (case to_text (message_of json) of
        Inl e \<Rightarrow> ([], Inl e)
      | Inr message \<Rightarrow>
          if json = JUndefined \<or> json = JNull then ([], Inl TypeError)
          else (case (if truthy (errors_of json) then errorsToUlTree (errors_of json) else Inr [])
                of Inl e \<Rightarrow> ([], Inl e)
                 | Inr tree \<Rightarrow>
                     showAlert env this
                       (\<lambda>context. AlertExtended context
                                    (''<strong>'' @ message @ ''</strong>'' @ tree))))"

definition pageExpired_data :: jsval where
  "pageExpired_data =
     JObj [(''message'', JStr ''Page Expired''),
           (''errors'', JArr [JStr ''Please reload the page.''])]"

definition showAlertPageExpired :: "env \<Rightarrow> ui \<Rightarrow> unit result" where
  "showAlertPageExpired env this = showAlertExtended env this pageExpired_data"

text \<open>
  \<open>showAlertUnexpected\<close> escapes the error text (\<open>escapeHtml\<close> throws on a value that is
  not a string), shows the alert, then builds the detail report from
  \<open>jqXHR.status.toString()\<close>, \<open>escapeHtml(jqXHR.statusText)\<close> and
  \<open>escapeHtml(jqXHR.responseText)\<close>, in this order; each throws a \<open>TypeError\<close> on a
  property the object does not have. With the report appended it attaches a handler to
  \<open>alert.querySelector('.alert .btn-detailed')\<close>.
\<close>

definition showAlertUnexpected :: "env \<Rightarrow> ui \<Rightarrow> xhr \<Rightarrow> unit result" where
  "showAlertUnexpected env this jqXHR =
     (case getErrorText jqXHR of
        None \<Rightarrow> ([], Inl TypeError)
      | Some errorText \<Rightarrow>
          (case showAlert env this (\<lambda>context. AlertUnexpected context (escapeHtml errorText))
           of (alert, Inl e) \<Rightarrow> (alert, Inl e)
            | (alert, Inr _) \<Rightarrow>
               (case x_status jqXHR of
                  None \<Rightarrow> (alert, Inl TypeError)
                | Some status \<Rightarrow>
                    (case x_statusText jqXHR of
                       None \<Rightarrow> (alert, Inl TypeError)
                     | Some statusText \<Rightarrow>
                         (case x_responseText jqXHR of
                            None \<Rightarrow> (alert, Inl TypeError)
                          | Some responseText \<Rightarrow>
                              (alert @ [ErrorReport (escapeHtml (string_of_int status))
                                          (escapeHtml statusText) (escapeHtml responseText)],
                               if env_detail_button env (ui_id this) then Inr ()
                               else Inl TypeError))))))"

subsection \<open>class HttpUi\<close>

text \<open>
  \<open>serializeForm\<close>. A \<open>FORM\<close> element gives \<open>new FormData(form)\<close>. Any other element
  gives a plain object \<open>{}\<close>, filled by one pass over its controls. \<open>data[name] = v\<close>
  stores a property, except under \<open>__proto__\<close>, where the string goes to the inherited
  setter and nothing is stored. \<open>!data[name]\<close> holds of the empty string, and of a
  missing property unless the name is one every object inherits.
\<close>

definition option_key :: "string \<Rightarrow> nat \<Rightarrow> string" where
  "option_key sname j = sname @ ''['' @ decimal j @ '']''"

definition set_prop :: "string \<Rightarrow> jsval \<Rightarrow> (string \<times> jsval) list \<Rightarrow> (string \<times> jsval) list" where
  "set_prop name v data = (if name = ''__proto__'' then data else AList.update name v data)"

definition falsy_prop :: "(string \<times> jsval) list \<Rightarrow> string \<Rightarrow> bool" where
  "falsy_prop data name =
     (case map_of data name of
        None \<Rightarrow> name \<notin> set object_prototype_names
      | Some v \<Rightarrow> \<not> truthy v)"

fun assign_options :: "string \<Rightarrow> nat \<Rightarrow> option_el list \<Rightarrow> (string \<times> jsval) list \<Rightarrow> (string \<times> jsval) list" where
  "assign_options sname j [] data = data"
| "assign_options sname j (opt # opts) data =
     assign_options sname (Suc j) opts (set_prop (option_key sname j) (JStr (o_value opt)) data)"

definition serializeInput :: "control \<Rightarrow> (string \<times> jsval) list \<Rightarrow> (string \<times> jsval) list" where
  "serializeInput input data =
     (if c_type input = ''checkbox'' then
        set_prop (c_name input) (JStr (if c_checked input then c_value input else [])) data
      else if c_type input = ''radio'' then
        (let data1 = (if falsy_prop data (c_name input)
                      then set_prop (c_name input) (JStr []) data else data)
         in if c_checked input then set_prop (c_name input) (JStr (c_value input)) data1
            else data1)
      else if c_tagName input = ''SELECT'' \<and> c_multiple input \<and> endsWith (c_name input) ''[]'' then
        assign_options (take (length (c_name input) - 2) (c_name input)) 0
          (filter o_selected (c_options input)) data
      else set_prop (c_name input) (JStr (c_value input)) data)"

definition serializeForm :: "element \<Rightarrow> jsval" where
  "serializeForm form =
     (if e_nodeName form = ''FORM'' then JFormData (FormData_of form)
      else JObj (fold serializeInput (e_controls form) []))"

text \<open>
  \<open>displayAlert\<close>. Its argument is a descriptor, so the \<open>instanceof queryUi\<close> guard
  passes. The first test is \<open>typeof data !== 'object' && status === 419 &&
  responseText.indexOf('Page Expired') > 0\<close>, evaluated left to right.
\<close>

definition page_expired :: "xhr \<Rightarrow> js_error + bool" where
  "page_expired jqXHR =
     (if typeof (x_data jqXHR) \<noteq> ''object'' \<and> x_status jqXHR = Some 419 then
        (case x_responseText jqXHR of
           None \<Rightarrow> Inl TypeError
         | Some responseText \<Rightarrow> Inr (indexOf responseText ''Page Expired'' > 0))
      else Inr False)"

definition displayAlert :: "env \<Rightarrow> queryUi \<Rightarrow> unit result" where
  "displayAlert env query =
     (case q_response query of
        None \<Rightarrow> ([], Inl TypeError)
      | Some jqXHR \<Rightarrow>
          (case page_expired jqXHR of
             Inl e \<Rightarrow> ([], Inl e)
           | Inr expired \<Rightarrow>
               (case q_ui query of
                  None \<Rightarrow> ([], Inl TypeError)
                | Some u \<Rightarrow>
                    if expired then showAlertPageExpired env u
                    else if typeof (x_data jqXHR) = ''object'' \<and> truthy (message_of (x_data jqXHR))
                    then showAlertExtended env u (x_data jqXHR)
                    else showAlertUnexpected env u jqXHR)))"

text \<open>\<open>#prepareQuery\<close>: the constructor, then the four conditionals in turn.\<close>

definition fill_data :: "queryUi \<Rightarrow> queryUi" where
  "fill_data query =
     (case q_context query of
        HTMLElement el \<Rightarrow>
          if typeof (q_data query) = ''undefined'' \<and> q_method query \<noteq> ''GET''
          then query\<lparr>q_data := serializeForm el\<rparr> else query
      | OtherNode n \<Rightarrow> query)"

definition encode_data :: "env \<Rightarrow> queryUi \<Rightarrow> queryUi" where
  "encode_data env query =
     (if truthy (q_data query) \<and> typeof (q_data query) = ''object''
         \<and> \<not> instanceof_FormData (q_data query)
      then query\<lparr>q_data := JStr (env_stringify env (q_data query)),
                 q_headers := AList.update ''Content-Type'' (JStr ''application/json'') (q_headers query)\<rparr>
      else query)"

definition resolve_contexts :: "queryUi \<Rightarrow> queryUi" where
  "resolve_contexts query =
     (let query1 = (case q_contextLock query of
                      None \<Rightarrow> query\<lparr>q_contextLock := Some (q_context query)\<rparr>
                    | Some c \<Rightarrow> query)
      in case q_contextStatus query1 of
           None \<Rightarrow> query1\<lparr>q_contextStatus := Some (q_context query1)\<rparr>
         | Some c \<Rightarrow> query1)"

definition prepareQuery :: "env \<Rightarrow> request_arg \<Rightarrow> queryUi" where
  "prepareQuery env arg = resolve_contexts (encode_data env (fill_data (queryUi_new env arg)))"

text \<open>
  \<open>#requestFail\<close>. \<open>JSON.parse(jqXHR.responseText)\<close> throws on a missing
  \<open>responseText\<close> as it does on a text that is not JSON, and the \<open>catch\<close> swallows both.
  An exception of \<open>hideLoader\<close> or of \<open>displayAlert\<close> leaves the function before
  \<open>reject(query)\<close>.
\<close>

definition parse_body :: "env \<Rightarrow> xhr \<Rightarrow> xhr" where
  "parse_body env jqXHR =
     (case x_responseText jqXHR of
        None \<Rightarrow> jqXHR
      | Some responseText \<Rightarrow>
          (case env_parse env responseText of
             None \<Rightarrow> jqXHR
           | Some v \<Rightarrow> jqXHR\<lparr>x_data := v\<rparr>))"

definition requestFail :: "env \<Rightarrow> xhr \<Rightarrow> queryUi \<Rightarrow> unit result" where
  "requestFail env jqXHR query =
     (case q_ui query of
        None \<Rightarrow> ([], Inl TypeError)
      | Some u \<Rightarrow>
          (case hideLoader env u None of
             (hidden, Inl e) \<Rightarrow> (hidden, Inl e)
           | (hidden, Inr _) \<Rightarrow>
               (let jqXHR1 = parse_body env jqXHR;
                    query1 = attach_failure (env_copy env) query jqXHR1
                in case q_onError query1 of
                     Some onError \<Rightarrow>
                       (hidden @ [OnError onError (q_context query1) jqXHR1 query1, Reject query1],
                        Inr ())
                   | None \<Rightarrow>
                       (case displayAlert env query1 of
                          (shown, Inl e) \<Rightarrow> (hidden @ shown, Inl e)
                        | (shown, Inr _) \<Rightarrow> (hidden @ shown @ [Reject query1], Inr ())))))"

text \<open>
  The success continuation both adapters share: attach the result, call \<open>onSuccess\<close>
  with the context as \<open>this\<close>, resolve.
\<close>

definition succeed :: "env \<Rightarrow> queryUi \<Rightarrow> xhr \<Rightarrow> jsval \<Rightarrow> event list" where
  "succeed env query response data =
     (let query1 = attach_success (env_copy env) query response data in
      (case q_onSuccess query1 of
         Some onSuccess \<Rightarrow> [OnSuccess onSuccess (q_context query1) data query1]
       | None \<Rightarrow> [])
      @ [Resolve query1])"

text \<open>
  \<open>#sendRequestJQuery\<close>, with what the call delivers. An exception of \<open>hideLoader\<close> in
  the \<open>then\<close> handler ends the handler; jQuery from version 3 passes it to the \<open>fail\<close>
  handler, where \<open>#requestFail\<close> calls \<open>hideLoader\<close> again, and earlier versions let it
  escape at once.
\<close>

definition error_object :: xhr where
  "error_object = \<lparr>x_data = JUndefined, x_status = None, x_statusText = None, x_responseText = None\<rparr>"

definition sendRequestJQuery :: "env \<Rightarrow> jq_outcome \<Rightarrow> queryUi \<Rightarrow> unit result" where
  "sendRequestJQuery env outcome query =
     (case q_ui query of
        None \<Rightarrow> ([], Inl TypeError)
      | Some u \<Rightarrow>
          (let started = remAlerts u @ displayLoader u None None @ [Ajax query] in
           case outcome of
             JqDone data jqXHR \<Rightarrow>
               (case hideLoader env u None of
                  (hidden, Inl e) \<Rightarrow>
                    (case requestFail env error_object query of
                       (evs, r) \<Rightarrow> (started @ hidden @ evs, r))
                | (hidden, Inr _) \<Rightarrow>
                    (started @ hidden @ succeed env query jqXHR data, Inr ()))
           | JqFail jqXHR \<Rightarrow>
               (case requestFail env jqXHR query of (evs, r) \<Rightarrow> (started @ evs, r))))"

text \<open>
  \<open>#sendRequestFetch\<close>. A rejected \<open>fetch\<close>, a rejected \<open>response.json()\<close> and an
  exception of \<open>hideLoader\<close> reach the \<open>catch\<close> with an \<open>Error\<close>, which has none of the
  four properties; a response that is not \<open>ok\<close> reaches it with
  \<open>{data, status, statusText}\<close>. \<open>response.ok\<close> is a status from 200 to 299.
\<close>

definition response_object :: "int \<Rightarrow> string \<Rightarrow> xhr" where
  "response_object status statusText =
     \<lparr>x_data = JUndefined, x_status = Some status, x_statusText = Some statusText,
      x_responseText = None\<rparr>"

definition sendRequestFetch :: "env \<Rightarrow> fetch_outcome \<Rightarrow> queryUi \<Rightarrow> unit result" where
  "sendRequestFetch env outcome query =
     (case q_ui query of
        None \<Rightarrow> ([], Inl TypeError)
      | Some u \<Rightarrow>
          (let started = remAlerts u @ displayLoader u None None @ [Fetch query] in
           case outcome of
             FetchFailed \<Rightarrow>
               (case requestFail env error_object query of (evs, r) \<Rightarrow> (started @ evs, r))
           | FetchResponse status statusText body \<Rightarrow>
               (case hideLoader env u None of
                  (hidden, Inl e) \<Rightarrow>
                    (case requestFail env error_object query of
                       (evs, r) \<Rightarrow> (started @ hidden @ evs, r))
                | (hidden, Inr _) \<Rightarrow>
                    (let received = started @ hidden in
                     case body of
                       NotJson \<Rightarrow>
                         (case requestFail env error_object query of
                            (evs, r) \<Rightarrow> (received @ evs, r))
                     | JsonBody data \<Rightarrow>
                         if 200 \<le> status \<and> status \<le> 299
                         then (received @ succeed env query (response_object status statusText) data,
                               Inr ())
                         else (case requestFail env
                                      \<lparr>x_data = data, x_status = Some status,
                                       x_statusText = Some statusText, x_responseText = None\<rparr>
                                      query
                               of (evs, r) \<Rightarrow> (received @ evs, r))))))"

text \<open>
  \<open>request\<close>: the id is the caller's when it is a non-empty string, else the time, a
  dash and a random number below \<open>0x75bcd15\<close> in hexadecimal. The result is the trace
  of the whole call, with the exception a handler let escape, if any; the promise is
  settled by the \<open>Resolve\<close> or \<open>Reject\<close> event of the trace. (This is \<open>request\<close> as the
  class runs it, which is how the exported object runs it when called as a function.
  A method called on the exported \<open>Proxy\<close> has the proxy as \<open>this\<close> and fails at the
  private \<open>#prepareQuery\<close>, for \<open>request\<close> and the shorthands alike.)
\<close>

definition ajaxId_of :: "env \<Rightarrow> request_arg \<Rightarrow> string" where
  "ajaxId_of env arg =
     (case p_id (params_of arg) of
        None \<Rightarrow> decimal (env_now env) @ ''-'' @ hex (env_random env)
      | Some i \<Rightarrow> if i = [] then decimal (env_now env) @ ''-'' @ hex (env_random env) else i)"

definition request_query :: "env \<Rightarrow> request_arg \<Rightarrow> queryUi" where
  "request_query env arg =
     (let ajaxId = ajaxId_of env arg;
          query = prepareQuery env arg;
          query1 = query\<lparr>q_id := Some ajaxId,
                        q_headers := AList.update ''X-Requested-Id'' (JStr ajaxId) (q_headers query)\<rparr>
      in query1\<lparr>q_ui := Some (ui_new env query1)\<rparr>)"

definition request :: "env \<Rightarrow> request_arg \<Rightarrow> unit result" where
  "request env arg =
     (let query = request_query env arg in
      case env_jQuery env of
        Some outcome \<Rightarrow> sendRequestJQuery env outcome query
      | None \<Rightarrow> sendRequestFetch env (env_fetch env) query)"

text \<open>
  The object literal \<open>{method: M, url: url, ...params}\<close> of the shorthand methods: the
  properties of \<open>params\<close> come last, so its own \<open>method\<close> or \<open>url\<close> wins.
\<close>

definition shorthand_params :: "string \<Rightarrow> string \<Rightarrow> params \<Rightarrow> params" where
  "shorthand_params M url params =
     params\<lparr>p_method := (case p_method params of Some m \<Rightarrow> Some m | None \<Rightarrow> Some M),
            p_url := (case p_url params of Some u \<Rightarrow> Some u | None \<Rightarrow> Some url)\<rparr>"

definition get :: "env \<Rightarrow> string \<Rightarrow> params \<Rightarrow> unit result" where
  "get env url params = request env (Params (shorthand_params ''GET'' url params))"

definition delete :: "env \<Rightarrow> string \<Rightarrow> params \<Rightarrow> unit result" where
  "delete env url params = request env (Params (shorthand_params ''DELETE'' url params))"

definition head :: "env \<Rightarrow> string \<Rightarrow> params \<Rightarrow> unit result" where
  "head env url params = request env (Params (shorthand_params ''HEAD'' url params))"

definition options :: "env \<Rightarrow> string \<Rightarrow> params \<Rightarrow> unit result" where
  "options env url params = request env (Params (shorthand_params ''OPTIONS'' url params))"




text \<open>The network call of a request: \<open>jQuery.ajax\<close> when jQuery is loaded, else \<open>fetch\<close>.\<close>

definition transport_call :: "env \<Rightarrow> queryUi \<Rightarrow> event" where
  "transport_call env query = (case env_jQuery env of Some outcome \<Rightarrow> Ajax query | None \<Rightarrow> Fetch query)"

subsection \<open>Vocabulary of the properties\<close>





text \<open>The calls of the caller's functions.\<close>

fun is_callback :: "event \<Rightarrow> bool" where
  "is_callback (OnSuccess f c d q) = True"
| "is_callback (OnError f c x q) = True"
| "is_callback e = False"

text \<open>The events that settle the promise.\<close>

fun is_settled :: "event \<Rightarrow> bool" where
  "is_settled (Resolve q) = True"
| "is_settled (Reject q) = True"
| "is_settled e = False"

subsection \<open>Concrete pages and environments\<close>

text \<open>
  The inputs of the examples below. \<open>demo_stringify\<close> is \<open>JSON.stringify\<close> on the
  values the examples use (strings without characters to escape, integers, booleans,
  \<open>null\<close>, arrays and objects of them); \<open>demo_parse\<close> is \<open>JSON.parse\<close> on the bodies
  of the examples, two of which are JSON.
\<close>

primrec demo_stringify :: "jsval \<Rightarrow> string" where
  "demo_stringify JUndefined = ''null''"
| "demo_stringify JNull = ''null''"
| "demo_stringify (JBool b) = (if b then ''true'' else ''false'')"
| "demo_stringify (JNum n) = string_of_int n"
| "demo_stringify (JStr s) = [CHR 0x22] @ s @ [CHR 0x22]"
| "demo_stringify (JArr xs) = ''['' @ join '','' (map demo_stringify xs) @ '']''"
| "demo_stringify (JObj kvs) =
     ''{'' @ join '','' (map (\<lambda>kv. [CHR 0x22] @ fst kv @ [CHR 0x22] @ '':'' @ snd kv)
                          (map (map_prod id demo_stringify) kvs)) @ ''}''"
| "demo_stringify (JFormData fd) = ''{}''"

definition demo_parse :: "string \<Rightarrow> jsval option" where
  "demo_parse s =
     (if s = ''{\"message\":\"Validation failed\"}''
      then Some (JObj [(''message'', JStr ''Validation failed'')])
      else if s = ''{\"ok\":true}'' then Some (JObj [(''ok'', JBool True)])
      else None)"

definition demo_body :: element where
  "demo_body = \<lparr>e_nodeName = ''BODY'', e_controls = []\<rparr>"

definition demo_checkbox :: control where
  "demo_checkbox =
     \<lparr>c_tagName = ''INPUT'', c_type = ''checkbox'', c_name = ''agree'', c_value = ''yes'',
      c_checked = False, c_multiple = False, c_options = []\<rparr>"

definition demo_radio_a :: control where
  "demo_radio_a =
     \<lparr>c_tagName = ''INPUT'', c_type = ''radio'', c_name = ''size'', c_value = ''S'',
      c_checked = True, c_multiple = False, c_options = []\<rparr>"

definition demo_radio_b :: control where
  "demo_radio_b =
     \<lparr>c_tagName = ''INPUT'', c_type = ''radio'', c_name = ''size'', c_value = ''L'',
      c_checked = False, c_multiple = False, c_options = []\<rparr>"

definition demo_select :: control where
  "demo_select =
     \<lparr>c_tagName = ''SELECT'', c_type = ''select-multiple'', c_name = ''tags[]'', c_value = ''x'',
      c_checked = False, c_multiple = True,
      c_options = [\<lparr>o_value = ''x'', o_selected = True\<rparr>, \<lparr>o_value = ''y'', o_selected = False\<rparr>,
                   \<lparr>o_value = ''z'', o_selected = True\<rparr>]\<rparr>"

definition demo_text :: control where
  "demo_text =
     \<lparr>c_tagName = ''INPUT'', c_type = ''text'', c_name = ''name'', c_value = ''Ann'',
      c_checked = False, c_multiple = False, c_options = []\<rparr>"

definition demo_div :: element where
  "demo_div =
     \<lparr>e_nodeName = ''DIV'',
      e_controls = [demo_checkbox, demo_radio_a, demo_radio_b, demo_select, demo_text]\<rparr>"

definition demo_form :: element where
  "demo_form = \<lparr>e_nodeName = ''FORM'', e_controls = [demo_checkbox]\<rparr>"

text \<open>
  A page where the selector of a loader finds it when the id is made of letters,
  digits, \<open>-\<close> and \<open>_\<close>, finds nothing for the id \<open>user.save\<close> and is no selector
  otherwise, and where the markup of every alert is whole.
\<close>

definition plain_id :: "string \<Rightarrow> bool" where
  "plain_id i =
     (i \<noteq> [] \<and> list_all (\<lambda>c. c \<in> set ''abcdefghijklmnopqrstuvwxyzABCDEFGHIJKLMNOPQRSTUVWXYZ0123456789-_'') i)"

definition demo_querySelector :: "string \<Rightarrow> lookup" where
  "demo_querySelector selector =
     (if take 11 selector = ''.aj-loader-'' \<and> plain_id (drop 11 selector) then FoundLoader
      else if selector = ''.aj-loader-user.save'' then NoMatch
      else SelectorThrows)"

definition demo_env :: env where
  "demo_env =
     \<lparr>env_copy = Documented, env_now = 1700, env_random = 255, env_random_text = ''42.5'',
      env_csrf = Some ''tok'', env_body = demo_body, env_stringify = demo_stringify,
      env_parse = demo_parse, env_jQuery = None, env_fetch = FetchFailed,
      env_querySelector = demo_querySelector, env_close_button = (\<lambda>i. True),
      env_detail_button = (\<lambda>i. True)\<rparr>"

text \<open>
  Requests: a bare \<open>PUT\<close> from a \<open>div\<close> and from a \<open>form\<close>, one with headers of its own,
  one with the id \<open>user.save\<close> and an \<open>onSuccess\<close> callback, and a \<open>POST\<close> of an object
  with both callbacks.
\<close>

definition demo_put :: request_arg where
  "demo_put = Params (params_empty\<lparr>p_url := Some ''/x'', p_method := Some ''PUT'',
                                   p_context := Some (HTMLElement demo_div)\<rparr>)"

definition demo_put_form :: request_arg where
  "demo_put_form = Params (params_empty\<lparr>p_url := Some ''/x'', p_method := Some ''PUT'',
                                        p_context := Some (HTMLElement demo_form)\<rparr>)"

definition demo_custom_headers :: request_arg where
  "demo_custom_headers =
     Params (params_empty\<lparr>p_url := Some ''/x'', p_headers := Some [(''X-Foo'', JStr ''bar'')]\<rparr>)"

definition demo_user_save :: request_arg where
  "demo_user_save =
     Params (params_empty\<lparr>p_url := Some ''/x'', p_id := Some ''user.save'',
                          p_onSuccess := Some (Callback ''done'')\<rparr>)"

definition demo_post_data :: request_arg where
  "demo_post_data =
     Params (params_empty\<lparr>p_url := Some ''/x'', p_method := Some ''POST'',
                          p_data := Some (JObj [(''a'', JNum 1)]), p_id := Some ''r2'',
                          p_onSuccess := Some (Callback ''done''),
                          p_onError := Some (Callback ''failed'')\<rparr>)"

text \<open>
  Transport results: a jQuery success (also with the older copy of the library
  loaded), a fetch success, a jQuery failure with a JSON body, and a 419 whose body is
  the bare marker.
\<close>

definition demo_xhr_200 :: xhr where
  "demo_xhr_200 =
     \<lparr>x_data = JUndefined, x_status = Some 200, x_statusText = Some ''OK'',
      x_responseText = Some ''{\"ok\":true}''\<rparr>"

definition demo_jq_env :: env where
  "demo_jq_env = demo_env\<lparr>env_jQuery := Some (JqDone (JObj [(''ok'', JBool True)]) demo_xhr_200)\<rparr>"

definition demo_fetch_env :: env where
  "demo_fetch_env =
     demo_env\<lparr>env_fetch := FetchResponse 200 ''OK'' (JsonBody (JObj [(''ok'', JBool True)]))\<rparr>"

definition demo_xhr_422 :: xhr where
  "demo_xhr_422 =
     \<lparr>x_data = JUndefined, x_status = Some 422, x_statusText = Some ''Unprocessable Content'',
      x_responseText = Some ''{\"message\":\"Validation failed\"}''\<rparr>"

definition demo_jq_fail_env :: env where
  "demo_jq_fail_env = demo_env\<lparr>env_jQuery := Some (JqFail demo_xhr_422)\<rparr>"

definition demo_older_env :: env where
  "demo_older_env = demo_jq_env\<lparr>env_copy := Older\<rparr>"

definition demo_xhr_419 :: xhr where
  "demo_xhr_419 =
     \<lparr>x_data = JUndefined, x_status = Some 419, x_statusText = Some ''unknown status'',
      x_responseText = Some ''Page Expired''\<rparr>"

definition demo_xhr_419_html :: xhr where
  "demo_xhr_419_html = demo_xhr_419\<lparr>x_responseText := Some ''<title>Page Expired</title>''\<rparr>"

definition demo_failed_419 :: queryUi where
  "demo_failed_419 = addResponse (request_query demo_env (Url ''/x'')) demo_xhr_419 JUndefined"

section \<open>Properties\<close>

subsection \<open>escapeHtml\<close>

lemma replace_global_Nil: "replace_global c r [] = []"
  by (simp add: replace_global_def)

lemma replace_global_append:
  "replace_global c r (xs @ ys) = replace_global c r xs @ replace_global c r ys"
  by (simp add: replace_global_def)

lemma replace_global_Cons:
  "replace_global c r (x # xs) = (if x = c then r else [x]) @ replace_global c r xs"
  by (simp add: replace_global_def)

lemma escapeHtml_Nil: "escapeHtml [] = []"
  by (simp add: escapeHtml_def replace_global_Nil)

lemma escapeHtml_Cons: "escapeHtml (x # xs) = html_entity x @ escapeHtml xs"
  by (simp add: escapeHtml_def html_entity_def replace_global_Cons replace_global_append
      replace_global_Nil)

lemma escapeHtml_entities: "escapeHtml s = concat (map html_entity s)"
  by (induction s) (simp_all add: escapeHtml_Nil escapeHtml_Cons)

lemma html_entity_safe:
  "CHR ''<'' \<notin> set (html_entity c)" "CHR ''>'' \<notin> set (html_entity c)"
  "CHR 0x22 \<notin> set (html_entity c)" "CHR 0x27 \<notin> set (html_entity c)"
  by (simp_all add: html_entity_def)

text \<open>
  C10. The output of \<open>escapeHtml\<close> is the input with each of \<open>&\<close>, \<open><\<close>, \<open>>\<close>, the double
  quote and the single quote replaced by its entity and every other character kept, so
  no raw \<open><\<close>, \<open>>\<close>, double quote or single quote is left in it.
\<close>

theorem escapeHtml_no_raw_markup:
  "escapeHtml s = concat (map html_entity s)
   \<and> CHR ''<'' \<notin> set (escapeHtml s) \<and> CHR ''>'' \<notin> set (escapeHtml s)
   \<and> CHR 0x22 \<notin> set (escapeHtml s) \<and> CHR 0x27 \<notin> set (escapeHtml s)"
  by (simp add: escapeHtml_entities html_entity_safe)

theorem escapeHtml_no_raw_markup_witness:
  "escapeHtml ''<a href=\"x\">&'' = ''&lt;a href=&quot;x&quot;&gt;&amp;''
   \<and> CHR ''<'' \<notin> set (escapeHtml ''<a href=\"x\">&'')"
  using escapeHtml_no_raw_markup [of "''<a href=\"x\">&''"]
  by (simp add: html_entity_def)

subsection \<open>The descriptor that reaches the transport\<close>

lemma resolve_contexts_fields:
  "q_data (resolve_contexts q) = q_data q"
  "q_headers (resolve_contexts q) = q_headers q"
  "q_context (resolve_contexts q) = q_context q"
  "q_method (resolve_contexts q) = q_method q"
  "q_onSuccess (resolve_contexts q) = q_onSuccess q"
  "q_onError (resolve_contexts q) = q_onError q"
  by (simp_all add: resolve_contexts_def Let_def split: option.splits)

lemma encode_data_fields:
  "q_context (encode_data env q) = q_context q"
  "q_contextLock (encode_data env q) = q_contextLock q"
  "q_contextStatus (encode_data env q) = q_contextStatus q"
  "q_method (encode_data env q) = q_method q"
  "q_onSuccess (encode_data env q) = q_onSuccess q"
  "q_onError (encode_data env q) = q_onError q"
  by (simp_all add: encode_data_def)

lemma fill_data_fields:
  "q_context (fill_data q) = q_context q"
  "q_contextLock (fill_data q) = q_contextLock q"
  "q_contextStatus (fill_data q) = q_contextStatus q"
  "q_headers (fill_data q) = q_headers q"
  "q_method (fill_data q) = q_method q"
  "q_onSuccess (fill_data q) = q_onSuccess q"
  "q_onError (fill_data q) = q_onError q"
  by (simp_all add: fill_data_def split: node.splits)

lemma queryUi_new_fields:
  "q_contextLock (queryUi_new env arg) = p_contextLock (params_of arg)"
  "q_contextStatus (queryUi_new env arg) = p_contextStatus (params_of arg)"
  "q_headers (queryUi_new env arg) =
     (case p_headers (params_of arg) of Some h \<Rightarrow> h | None \<Rightarrow> default_headers env)"
  by (simp_all add: queryUi_new_def Let_def)

lemma prepareQuery_context:
  "q_context (prepareQuery env arg) = q_context (queryUi_new env arg)"
  by (simp add: prepareQuery_def resolve_contexts_fields encode_data_fields fill_data_fields)

lemma prepareQuery_callbacks:
  "q_onSuccess (prepareQuery env arg) = p_onSuccess (params_of arg)"
  "q_onError (prepareQuery env arg) = p_onError (params_of arg)"
  by (simp_all add: prepareQuery_def resolve_contexts_fields encode_data_fields
      fill_data_fields queryUi_new_def Let_def)

lemma request_query_fields:
  "q_data (request_query env arg) = q_data (prepareQuery env arg)"
  "q_headers (request_query env arg) =
     AList.update ''X-Requested-Id'' (JStr (ajaxId_of env arg)) (q_headers (prepareQuery env arg))"
  "q_context (request_query env arg) = q_context (prepareQuery env arg)"
  "q_contextLock (request_query env arg) = q_contextLock (prepareQuery env arg)"
  "q_contextStatus (request_query env arg) = q_contextStatus (prepareQuery env arg)"
  "q_id (request_query env arg) = Some (ajaxId_of env arg)"
  "q_onSuccess (request_query env arg) = q_onSuccess (prepareQuery env arg)"
  "q_onError (request_query env arg) = q_onError (prepareQuery env arg)"
  by (simp_all add: request_query_def Let_def)

lemma request_query_ui:
  "q_ui (request_query env arg) =
     Some \<lparr>ui_id = ajaxId_of env arg,
           ui_context = q_context (prepareQuery env arg),
           ui_contextLock = (case q_contextLock (prepareQuery env arg) of Some c \<Rightarrow> c
                             | None \<Rightarrow> q_context (prepareQuery env arg)),
           ui_contextStatus = (case q_contextStatus (prepareQuery env arg) of Some c \<Rightarrow> c
                               | None \<Rightarrow> q_context (prepareQuery env arg))\<rparr>"
  by (simp add: request_query_def ui_new_def Let_def split: option.splits)

lemma prepareQuery_contextLock:
  "q_contextLock (prepareQuery env arg) =
     Some (case p_contextLock (params_of arg) of Some c \<Rightarrow> c
           | None \<Rightarrow> q_context (prepareQuery env arg))"
  by (simp add: prepareQuery_def resolve_contexts_def Let_def encode_data_fields
      fill_data_fields queryUi_new_fields split: option.splits)

lemma prepareQuery_contextStatus:
  "q_contextStatus (prepareQuery env arg) =
     Some (case p_contextStatus (params_of arg) of Some c \<Rightarrow> c
           | None \<Rightarrow> q_context (prepareQuery env arg))"
  by (simp add: prepareQuery_def resolve_contexts_def Let_def encode_data_fields
      fill_data_fields queryUi_new_fields split: option.splits)

lemma prepareQuery_headers_other:
  "k \<noteq> ''Content-Type'' \<Longrightarrow>
   map_of (q_headers (prepareQuery env arg)) k = map_of (q_headers (queryUi_new env arg)) k"
  by (simp add: prepareQuery_def resolve_contexts_fields encode_data_def fill_data_fields
      AList.update_conv')

text \<open>
  Every request starts with the same three events: the alerts of the status context are
  removed, the loader is shown in the lock context, the network call is made.
\<close>

lemma request_start:
  "\<exists>rest. fst (request env arg) =
     RemAlerts (case p_contextStatus (params_of arg) of Some c \<Rightarrow> c
                | None \<Rightarrow> q_context (prepareQuery env arg))
     # DisplayLoader (case p_contextLock (params_of arg) of Some c \<Rightarrow> c
                      | None \<Rightarrow> q_context (prepareQuery env arg)) (ajaxId_of env arg)
     # transport_call env (request_query env arg) # rest"
  by (simp add: request_def Let_def sendRequestJQuery_def sendRequestFetch_def request_query_ui
      prepareQuery_contextLock prepareQuery_contextStatus remAlerts_def
      displayLoader_def transport_call_def split_beta
      split: option.splits jq_outcome.splits fetch_outcome.splits fetch_body.splits sum.splits)

lemma request_transport:
  "fst (request env arg) ! 2 = transport_call env (request_query env arg)"
proof -
  obtain cs cl rest where
    "fst (request env arg) =
       RemAlerts cs # DisplayLoader cl (ajaxId_of env arg)
       # transport_call env (request_query env arg) # rest"
    using request_start [of env arg] by blast
  then show ?thesis by simp
qed

subsection \<open>The shorthand methods\<close>



subsection \<open>Encoding the payload\<close>

lemma isObject_truthy: "isObject d \<Longrightarrow> truthy d \<and> typeof d = ''object''"
  by (cases d) simp_all

text \<open>
  C6. The descriptor handed to the transport is the prepared one. When the payload,
  after the form fields have been filled in, is an object that is not a \<open>FormData\<close>,
  the descriptor's \<open>data\<close> is its JSON text and its \<open>Content-Type\<close> header is
  \<open>application/json\<close>. A \<open>FormData\<close> payload is passed as it is, and the headers are
  those of the constructor with the request id added: no \<open>Content-Type\<close> is set.
\<close>

theorem object_payload_is_json:
  "fst (request env arg) ! 2 = transport_call env (request_query env arg)
   \<and> (isObject (q_data (fill_data (queryUi_new env arg)))
        \<and> \<not> instanceof_FormData (q_data (fill_data (queryUi_new env arg))) \<longrightarrow>
        q_data (request_query env arg)
          = JStr (env_stringify env (q_data (fill_data (queryUi_new env arg))))
        \<and> map_of (q_headers (request_query env arg)) ''Content-Type''
          = Some (JStr ''application/json''))
   \<and> (instanceof_FormData (q_data (fill_data (queryUi_new env arg))) \<longrightarrow>
        q_data (request_query env arg) = q_data (fill_data (queryUi_new env arg))
        \<and> q_headers (request_query env arg)
          = AList.update ''X-Requested-Id'' (JStr (ajaxId_of env arg))
              (q_headers (queryUi_new env arg)))"
  by (simp add: request_transport request_query_fields prepareQuery_def resolve_contexts_fields
      encode_data_def isObject_truthy fill_data_fields AList.update_conv')

lemma demo_put_payload:
  "q_data (fill_data (queryUi_new demo_env demo_put)) =
     JObj [(''agree'', JStr ''''), (''size'', JStr ''S''), (''tags[0]'', JStr ''x''),
           (''tags[1]'', JStr ''z''), (''name'', JStr ''Ann'')]"
  by (simp add: fill_data_def queryUi_new_def demo_put_def params_empty_def serializeForm_def
      demo_div_def serializeInput_def demo_checkbox_def demo_radio_a_def demo_radio_b_def
      demo_select_def demo_text_def falsy_prop_def set_prop_def object_prototype_names_def
      endsWith_def option_key_def decimal_def digit_char_def)

lemma demo_put_form_payload:
  "q_data (fill_data (queryUi_new demo_env demo_put_form)) = JFormData (FormData_of demo_form)"
  by (simp add: fill_data_def queryUi_new_def demo_put_form_def params_empty_def
      serializeForm_def demo_form_def)

theorem object_payload_is_json_witness:
  "isObject (q_data (fill_data (queryUi_new demo_env demo_put)))
   \<and> \<not> instanceof_FormData (q_data (fill_data (queryUi_new demo_env demo_put)))
   \<and> q_data (request_query demo_env demo_put)
       = JStr ''{\"agree\":\"\",\"size\":\"S\",\"tags[0]\":\"x\",\"tags[1]\":\"z\",\"name\":\"Ann\"}''
   \<and> map_of (q_headers (request_query demo_env demo_put)) ''Content-Type''
       = Some (JStr ''application/json'')
   \<and> instanceof_FormData (q_data (fill_data (queryUi_new demo_env demo_put_form)))
   \<and> q_data (request_query demo_env demo_put_form) = JFormData (FormData_of demo_form)
   \<and> map_of (q_headers (request_query demo_env demo_put_form)) ''Content-Type'' = None"
  using object_payload_is_json [of demo_env demo_put]
    object_payload_is_json [of demo_env demo_put_form]
  by (simp add: demo_put_payload demo_put_form_payload AList.update_conv')
     (simp add: demo_env_def queryUi_new_def demo_put_form_def params_empty_def
        default_headers_def)

subsection \<open>Request headers\<close>

text \<open>
  C4 (amended). The descriptor handed to the transport always carries the
  \<open>X-Requested-Id\<close> header with the id of the request. When the parameters give no
  \<open>headers\<close> of their own it also carries \<open>Accept\<close>, \<open>X-Requested-With\<close> and
  \<open>X-CSRF-TOKEN\<close> (the content of the meta tag, or \<open>undefined\<close> without one). When they
  give a mapping, it replaces the defaults as a whole: under every name but
  \<open>X-Requested-Id\<close> and \<open>Content-Type\<close> the header sent is the caller's, or none.
\<close>

theorem request_headers:
  "fst (request env arg) ! 2 = transport_call env (request_query env arg)
   \<and> map_of (q_headers (request_query env arg)) ''X-Requested-Id''
       = Some (JStr (ajaxId_of env arg))
   \<and> (p_headers (params_of arg) = None \<longrightarrow>
        map_of (q_headers (request_query env arg)) ''Accept''
          = Some (JStr ''application/json, text/javascript'')
        \<and> map_of (q_headers (request_query env arg)) ''X-Requested-With''
          = Some (JStr ''XMLHttpRequest'')
        \<and> map_of (q_headers (request_query env arg)) ''X-CSRF-TOKEN''
          = Some (case env_csrf env of Some t \<Rightarrow> JStr t | None \<Rightarrow> JUndefined))
   \<and> (\<forall>h k. p_headers (params_of arg) = Some h
          \<and> k \<noteq> ''X-Requested-Id'' \<and> k \<noteq> ''Content-Type'' \<longrightarrow>
        map_of (q_headers (request_query env arg)) k = map_of h k)"
  by (simp add: request_transport request_query_fields AList.update_conv'
      prepareQuery_headers_other queryUi_new_fields default_headers_def)

theorem request_headers_witness:
  "p_headers (params_of (Url ''/x'')) = None
   \<and> map_of (q_headers (request_query demo_env (Url ''/x''))) ''Accept''
       = Some (JStr ''application/json, text/javascript'')
   \<and> map_of (q_headers (request_query demo_env (Url ''/x''))) ''X-CSRF-TOKEN''
       = Some (JStr ''tok'')
   \<and> p_headers (params_of demo_custom_headers) = Some [(''X-Foo'', JStr ''bar'')]
   \<and> map_of (q_headers (request_query demo_env demo_custom_headers)) ''X-Foo''
       = Some (JStr ''bar'')
   \<and> map_of (q_headers (request_query demo_env demo_custom_headers)) ''X-Requested-With''
       = None"
proof -
  have h: "p_headers (params_of demo_custom_headers) = Some [(''X-Foo'', JStr ''bar'')]"
    by (simp add: demo_custom_headers_def params_empty_def)
  from request_headers [of demo_env demo_custom_headers] h
  have "map_of (q_headers (request_query demo_env demo_custom_headers)) ''X-Foo''
          = map_of [(''X-Foo'', JStr ''bar'')] ''X-Foo''"
    and "map_of (q_headers (request_query demo_env demo_custom_headers)) ''X-Requested-With''
          = map_of [(''X-Foo'', JStr ''bar'')] ''X-Requested-With''"
    by simp_all
  then show ?thesis
    using request_headers [of demo_env "Url ''/x''"] h
    by (simp add: params_empty_def demo_env_def)
qed

text \<open>
  Without the restriction the property fails. For a caller who passes \<open>headers\<close> the
  spread replaces the default mapping as a whole, and only \<open>X-Requested-Id\<close> is added
  to the caller's: no \<open>Accept\<close> header is sent.
\<close>

lemma demo_ids: "ajaxId_of demo_env demo_custom_headers = ''1700-ff''"
  by (simp add: ajaxId_of_def demo_custom_headers_def params_empty_def demo_env_def decimal_def
      hex_def digit_char_def)

theorem custom_headers_replace_defaults:
  "fst (request demo_env demo_custom_headers) ! 2
     = Fetch (request_query demo_env demo_custom_headers)
   \<and> q_headers (request_query demo_env demo_custom_headers)
     = [(''X-Foo'', JStr ''bar''), (''X-Requested-Id'', JStr ''1700-ff'')]
   \<and> map_of (q_headers (request_query demo_env demo_custom_headers)) ''Accept'' = None"
proof -
  have h: "q_headers (request_query demo_env demo_custom_headers)
     = [(''X-Foo'', JStr ''bar''), (''X-Requested-Id'', JStr ''1700-ff'')]"
    by (simp add: request_query_fields demo_ids)
       (simp add: prepareQuery_def resolve_contexts_fields encode_data_def fill_data_def
          queryUi_new_def demo_custom_headers_def params_empty_def demo_env_def)
  have "transport_call demo_env (request_query demo_env demo_custom_headers)
     = Fetch (request_query demo_env demo_custom_headers)"
    by (simp add: transport_call_def demo_env_def)
  then show ?thesis
    by (simp add: request_transport h)
qed

subsection \<open>Lock and status contexts\<close>

lemma showAlertExtended_events:
  "fst (showAlertExtended env u json) = []
   \<or> (\<exists>html. fst (showAlertExtended env u json) = [AlertExtended (ui_contextStatus u) html])"
  by (simp add: showAlertExtended_def showAlert_def split: sum.splits)

lemma showAlertPageExpired_events:
  "fst (showAlertPageExpired env u) =
     [AlertExtended (ui_contextStatus u)
        ''<strong>Page Expired</strong><ul><li>Please reload the page.</li></ul>'']"
  by (simp add: showAlertPageExpired_def showAlertExtended_def showAlert_def pageExpired_data_def
      errorsToUlTree_def)

text \<open>
  C8. When the parameters leave \<open>contextLock\<close> out, the prepared descriptor's
  \<open>contextLock\<close> is its \<open>context\<close>, and the notifier of the request places the loader
  there; when they leave \<open>contextStatus\<close> out, the descriptor's \<open>contextStatus\<close> is its
  \<open>context\<close>, and the notifier removes alerts there and places there every alert it
  shows.
\<close>

theorem unspecified_contexts_resolve:
  "(p_contextLock (params_of arg) = None \<longrightarrow>
      q_contextLock (prepareQuery env arg) = Some (q_context (prepareQuery env arg))
      \<and> (\<exists>u. q_ui (request_query env arg) = Some u
             \<and> ui_contextLock u = q_context (prepareQuery env arg)
             \<and> displayLoader u None None =
                 [DisplayLoader (q_context (prepareQuery env arg)) (ajaxId_of env arg)]))
   \<and> (p_contextStatus (params_of arg) = None \<longrightarrow>
      q_contextStatus (prepareQuery env arg) = Some (q_context (prepareQuery env arg))
      \<and> (\<exists>u. q_ui (request_query env arg) = Some u
             \<and> ui_contextStatus u = q_context (prepareQuery env arg)
             \<and> remAlerts u = [RemAlerts (q_context (prepareQuery env arg))]
             \<and> fst (showAlert env u alert) = [alert (q_context (prepareQuery env arg))]
             \<and> fst (showAlertPageExpired env u) =
                 [AlertExtended (q_context (prepareQuery env arg))
                    ''<strong>Page Expired</strong><ul><li>Please reload the page.</li></ul>'']
             \<and> (fst (showAlertExtended env u json) = []
                  \<or> (\<exists>html. fst (showAlertExtended env u json) =
                        [AlertExtended (q_context (prepareQuery env arg)) html]))))"
proof -
  let ?c = "q_context (prepareQuery env arg)"
  let ?u = "\<lparr>ui_id = ajaxId_of env arg, ui_context = ?c,
             ui_contextLock = (case p_contextLock (params_of arg) of Some c \<Rightarrow> c | None \<Rightarrow> ?c),
             ui_contextStatus = ?c\<rparr>"
  have "fst (showAlertExtended env ?u json) = []
     \<or> (\<exists>html. fst (showAlertExtended env ?u json) = [AlertExtended ?c html])"
    using showAlertExtended_events [of env ?u json] by simp
  then show ?thesis
    by (simp add: request_query_ui prepareQuery_contextLock prepareQuery_contextStatus
        displayLoader_def remAlerts_def showAlert_def showAlertPageExpired_events)
qed

theorem unspecified_contexts_resolve_witness:
  "p_contextLock (params_of demo_put) = None
   \<and> p_contextStatus (params_of demo_put) = None
   \<and> q_contextLock (prepareQuery demo_env demo_put) = Some (HTMLElement demo_div)
   \<and> q_contextStatus (prepareQuery demo_env demo_put) = Some (HTMLElement demo_div)"
  using unspecified_contexts_resolve [of demo_put demo_env RemAlerts JNull]
  by (simp add: demo_put_def params_empty_def prepareQuery_context queryUi_new_def)

subsection \<open>Serializing the context\<close>















text \<open>
  The names every object inherits are left out because the object of the fields is a
  plain \<open>{}\<close>: an unchecked radio button named \<open>constructor\<close> finds the inherited
  member, which is truthy, and stores no empty string, and a value assigned under
  \<open>__proto__\<close> goes to the inherited setter.
\<close>

lemma inherited_names_not_serialized:
  "serializeInput \<lparr>c_tagName = ''INPUT'', c_type = ''radio'', c_name = ''constructor'',
                   c_value = ''a'', c_checked = False, c_multiple = False, c_options = []\<rparr> [] = []
   \<and> serializeInput \<lparr>c_tagName = ''INPUT'', c_type = ''text'', c_name = ''__proto__'',
                     c_value = ''a'', c_checked = False, c_multiple = False, c_options = []\<rparr> [] = []"
  by (simp add: serializeInput_def falsy_prop_def set_prop_def object_prototype_names_def endsWith_def)

subsection \<open>The loader and the callbacks\<close>

lemma callback_after_prefix:
  assumes "a # b # c # h # rest = pre @ e # suf"
    and "is_callback e" and "\<not> is_callback a" and "\<not> is_callback b"
    and "\<not> is_callback c" and "\<not> is_callback h"
  shows "h \<in> set pre"
  using assms by (auto simp: Cons_eq_append_conv)

lemma transport_call_not_callback: "\<not> is_callback (transport_call env q)"
  by (simp add: transport_call_def split: option.splits)

text \<open>
  When the selector made of the request's id finds the loader, the loader is hidden
  as soon as the call has delivered, before any call of \<open>onSuccess\<close> or \<open>onError\<close>.
\<close>

lemma requestFail_hides_first:
  "q_ui query = Some u \<Longrightarrow> env_querySelector env (loader_selector (ui_id u)) = FoundLoader \<Longrightarrow>
   \<exists>rest. fst (requestFail env x query) = HideLoader (ui_id u) # rest"
  by (auto simp: requestFail_def Let_def hideLoader_def split: option.splits prod.splits sum.splits)

lemma request_hides_first:
  assumes found: "env_querySelector env (loader_selector (ajaxId_of env arg)) = FoundLoader"
  shows "\<exists>rest. fst (request env arg) =
     RemAlerts (case p_contextStatus (params_of arg) of Some c \<Rightarrow> c
                | None \<Rightarrow> q_context (prepareQuery env arg))
     # DisplayLoader (case p_contextLock (params_of arg) of Some c \<Rightarrow> c
                      | None \<Rightarrow> q_context (prepareQuery env arg)) (ajaxId_of env arg)
     # transport_call env (request_query env arg)
     # HideLoader (ajaxId_of env arg) # rest"
proof -
  let ?q = "request_query env arg"
  let ?u = "\<lparr>ui_id = ajaxId_of env arg,
           ui_context = q_context (prepareQuery env arg),
           ui_contextLock = (case q_contextLock (prepareQuery env arg) of Some c \<Rightarrow> c
                             | None \<Rightarrow> q_context (prepareQuery env arg)),
           ui_contextStatus = (case q_contextStatus (prepareQuery env arg) of Some c \<Rightarrow> c
                               | None \<Rightarrow> q_context (prepareQuery env arg))\<rparr>"
  have u: "q_ui ?q = Some ?u" by (rule request_query_ui)
  have fail: "\<exists>rest. fst (requestFail env x ?q) = HideLoader (ajaxId_of env arg) # rest" for x
    using requestFail_hides_first [OF u, of env x] found by simp
  show ?thesis
  proof (cases "env_jQuery env")
    case None
    show ?thesis
    proof (cases "env_fetch env")
      case FetchFailed
      obtain rest where "fst (requestFail env error_object ?q) = HideLoader (ajaxId_of env arg) # rest"
        using fail by blast
      then show ?thesis
        using None FetchFailed
        by (simp add: request_def sendRequestFetch_def u remAlerts_def displayLoader_def
            transport_call_def prepareQuery_contextLock prepareQuery_contextStatus
            Let_def split_beta)
    next
      case (FetchResponse status statusText body)
      then show ?thesis
        using None found
        by (simp add: request_def sendRequestFetch_def u remAlerts_def displayLoader_def
            hideLoader_def transport_call_def prepareQuery_contextLock prepareQuery_contextStatus
            Let_def split_beta split: fetch_body.splits)
    qed
  next
    case (Some outcome)
    show ?thesis
    proof (cases outcome)
      case (JqDone d x)
      then show ?thesis
        using Some found
        by (simp add: request_def sendRequestJQuery_def u remAlerts_def displayLoader_def
            hideLoader_def transport_call_def prepareQuery_contextLock prepareQuery_contextStatus
            Let_def)
    next
      case (JqFail x)
      obtain rest where "fst (requestFail env x ?q) = HideLoader (ajaxId_of env arg) # rest"
        using fail by blast
      then show ?thesis
        using Some JqFail
        by (simp add: request_def sendRequestJQuery_def u remAlerts_def displayLoader_def
            transport_call_def prepareQuery_contextLock prepareQuery_contextStatus
            Let_def split_beta)
    qed
  qed
qed

lemma loader_lifecycle_found:
  assumes "env_querySelector env (loader_selector (ajaxId_of env arg)) = FoundLoader"
  shows "\<exists>cs cl rest.
      q_contextStatus (request_query env arg) = Some cs
    \<and> q_contextLock (request_query env arg) = Some cl
    \<and> fst (request env arg) =
        RemAlerts cs # DisplayLoader cl (ajaxId_of env arg)
        # transport_call env (request_query env arg) # rest
    \<and> HideLoader (ajaxId_of env arg) \<in> set rest
    \<and> (\<forall>pre e suf. fst (request env arg) = pre @ e # suf \<and> is_callback e
          \<longrightarrow> HideLoader (ajaxId_of env arg) \<in> set pre)"
proof -
  obtain rest where t: "fst (request env arg) =
     RemAlerts (case p_contextStatus (params_of arg) of Some c \<Rightarrow> c
                | None \<Rightarrow> q_context (prepareQuery env arg))
     # DisplayLoader (case p_contextLock (params_of arg) of Some c \<Rightarrow> c
                      | None \<Rightarrow> q_context (prepareQuery env arg)) (ajaxId_of env arg)
     # transport_call env (request_query env arg)
     # HideLoader (ajaxId_of env arg) # rest"
    using request_hides_first [OF assms] by blast
  have "HideLoader (ajaxId_of env arg) \<in> set pre"
    if "fst (request env arg) = pre @ e # suf" and "is_callback e" for pre e suf
    using callback_after_prefix [of _ _ _ "HideLoader (ajaxId_of env arg)" rest pre e suf]
      that t transport_call_not_callback [of env "request_query env arg"]
    by simp
  then show ?thesis
    using t by (simp add: request_query_fields prepareQuery_contextLock prepareQuery_contextStatus)
qed

lemma demo_user_save_query:
  "q_onSuccess (request_query demo_jq_env demo_user_save) = Some (Callback ''done'')"
  "q_context (request_query demo_jq_env demo_user_save) = HTMLElement demo_body"
  "q_context (prepareQuery demo_jq_env demo_user_save) = HTMLElement demo_body"
  "p_contextLock (params_of demo_user_save) = None"
  "p_contextStatus (params_of demo_user_save) = None"
  "ajaxId_of demo_jq_env demo_user_save = ''user.save''"
  by (simp_all add: request_query_fields prepareQuery_def resolve_contexts_def encode_data_def
      fill_data_def queryUi_new_def demo_user_save_def params_empty_def demo_jq_env_def
      demo_env_def ajaxId_of_def Let_def)

text \<open>
  C7. Through either adapter a request first removes the alerts of the status context,
  then shows the loader in the lock context, then makes the network call. The loader
  is not hidden before every callback: \<open>hideLoader\<close> looks it up with the selector
  \<open>.aj-loader-\<close> followed by the id as the caller wrote it. For the id \<open>user.save\<close> the
  selector asks for an element of the two classes \<open>aj-loader-user\<close> and \<open>save\<close>, finds
  nothing, and the successful request calls \<open>onSuccess\<close> and resolves with the loader
  still shown: no event of its trace hides anything.
\<close>

theorem callback_with_loader_shown:
  "env_jQuery demo_jq_env = Some (JqDone (JObj [(''ok'', JBool True)]) demo_xhr_200)
   \<and> p_id (params_of demo_user_save) = Some ''user.save''
   \<and> env_querySelector demo_jq_env ''.aj-loader-user.save'' = NoMatch
   \<and> request demo_jq_env demo_user_save =
       ([RemAlerts (HTMLElement demo_body),
         DisplayLoader (HTMLElement demo_body) ''user.save'',
         Ajax (request_query demo_jq_env demo_user_save),
         OnSuccess (Callback ''done'') (HTMLElement demo_body) (JObj [(''ok'', JBool True)])
           (addResponse (request_query demo_jq_env demo_user_save) demo_xhr_200
              (JObj [(''ok'', JBool True)])),
         Resolve (addResponse (request_query demo_jq_env demo_user_save) demo_xhr_200
              (JObj [(''ok'', JBool True)]))],
        Inr ())"
proof -
  have j: "env_jQuery demo_jq_env = Some (JqDone (JObj [(''ok'', JBool True)]) demo_xhr_200)"
    and c: "env_copy demo_jq_env = Documented"
    and s: "env_querySelector demo_jq_env ''.aj-loader-user.save'' = NoMatch"
    by (simp_all add: demo_jq_env_def demo_env_def demo_querySelector_def plain_id_def)
  have a: "q_onSuccess (addResponse q r d) = q_onSuccess q"
    "q_context (addResponse q r d) = q_context q" for q :: queryUi and r d
    by (simp_all add: addResponse_def)
  have "request demo_jq_env demo_user_save =
       ([RemAlerts (HTMLElement demo_body),
         DisplayLoader (HTMLElement demo_body) ''user.save'',
         Ajax (request_query demo_jq_env demo_user_save),
         OnSuccess (Callback ''done'') (HTMLElement demo_body) (JObj [(''ok'', JBool True)])
           (addResponse (request_query demo_jq_env demo_user_save) demo_xhr_200
              (JObj [(''ok'', JBool True)])),
         Resolve (addResponse (request_query demo_jq_env demo_user_save) demo_xhr_200
              (JObj [(''ok'', JBool True)]))],
        Inr ())"
    by (simp add: request_def Let_def j c s sendRequestJQuery_def request_query_ui remAlerts_def
        displayLoader_def hideLoader_def loader_selector_def succeed_def attach_success_def a
        demo_user_save_query prepareQuery_contextLock prepareQuery_contextStatus)
  with j s show ?thesis
    by (simp add: demo_user_save_def params_empty_def)
qed

subsection \<open>Attaching the result\<close>

lemma hideLoader_not_settled:
  "e \<in> set (fst (hideLoader env u i)) \<Longrightarrow> \<not> is_settled e"
  by (auto simp add: hideLoader_def Let_def split: lookup.splits)

lemma showAlertExtended_not_settled:
  "e \<in> set (fst (showAlertExtended env u json)) \<Longrightarrow> \<not> is_settled e"
  using showAlertExtended_events [of env u json] by auto

lemma showAlertUnexpected_not_settled:
  "e \<in> set (fst (showAlertUnexpected env u x)) \<Longrightarrow> \<not> is_settled e"
  by (auto simp add: showAlertUnexpected_def showAlert_def split: option.splits if_splits)

lemma displayAlert_not_settled:
  "e \<in> set (fst (displayAlert env q)) \<Longrightarrow> \<not> is_settled e"
  by (auto simp add: displayAlert_def showAlertPageExpired_def
      dest: showAlertExtended_not_settled showAlertUnexpected_not_settled
      split: option.splits sum.splits if_splits)

lemma succeed_settled:
  "e \<in> set (succeed env q r d) \<Longrightarrow> is_settled e \<Longrightarrow>
   e = Resolve (attach_success (env_copy env) q r d)"
  by (auto simp add: succeed_def Let_def split: option.splits)

lemma requestFail_settled:
  "e \<in> set (fst (requestFail env x q)) \<Longrightarrow> is_settled e \<Longrightarrow>
   e = Reject (attach_failure (env_copy env) q (parse_body env x))"
  by (auto simp add: requestFail_def Let_def split_beta
      dest: hideLoader_not_settled displayAlert_not_settled
      split: option.splits sum.splits prod.splits)

lemma request_settled:
  assumes "e \<in> set (fst (request env arg))"
  shows "(e = Resolve q' \<longrightarrow>
            (\<exists>r d. q' = attach_success (env_copy env) (request_query env arg) r d))
       \<and> (e = Reject q' \<longrightarrow>
            (\<exists>x. q' = attach_failure (env_copy env) (request_query env arg) x))"
proof -
  let ?q = "request_query env arg"
  have started: "\<not> is_settled a"
    if "a \<in> set (remAlerts u @ displayLoader u None None @ [c])" and "\<not> is_settled c" for a u c
    using that by (auto simp add: remAlerts_def displayLoader_def)
  have "is_settled e \<longrightarrow>
          (\<exists>r d. e = Resolve (attach_success (env_copy env) ?q r d))
          \<or> (\<exists>x. e = Reject (attach_failure (env_copy env) ?q x))"
    using assms
    by (auto simp add: request_def Let_def sendRequestJQuery_def sendRequestFetch_def
        request_query_ui split_beta remAlerts_def displayLoader_def
        dest!: hideLoader_not_settled succeed_settled requestFail_settled
        split: option.splits jq_outcome.splits fetch_outcome.splits fetch_body.splits
          sum.splits if_splits)
  then show ?thesis by auto
qed

lemma succeed_last:
  "last (succeed env q x d) = Resolve (attach_success (env_copy env) q x d)"
  by (simp add: succeed_def Let_def split: option.splits)

lemma succeed_nonempty: "succeed env q x d \<noteq> []"
  by (simp add: succeed_def Let_def split: option.splits)

lemma hideLoader_returns:
  "env_querySelector env (loader_selector (ui_id u)) \<noteq> SelectorThrows \<Longrightarrow>
   \<exists>hidden. hideLoader env u None = (hidden, Inr ())"
  by (simp add: hideLoader_def Let_def split: lookup.splits)

lemma request_jQuery_done:
  assumes "env_jQuery env = Some (JqDone d x)"
    and "env_querySelector env (loader_selector (ajaxId_of env arg)) \<noteq> SelectorThrows"
  shows "last (fst (request env arg))
           = Resolve (attach_success (env_copy env) (request_query env arg) x d)"
proof -
  let ?u = "the (q_ui (request_query env arg))"
  obtain hidden where "hideLoader env ?u None = (hidden, Inr ())"
    using hideLoader_returns [of env ?u] assms(2) by (auto simp add: request_query_ui)
  then show ?thesis
    using assms(1)
    by (simp add: request_def Let_def sendRequestJQuery_def request_query_ui succeed_last
        succeed_nonempty)
qed

lemma request_fetch_ok:
  assumes "env_jQuery env = None" and "env_fetch env = FetchResponse status statusText (JsonBody d)"
    and "200 \<le> status" and "status \<le> 299"
    and "env_querySelector env (loader_selector (ajaxId_of env arg)) \<noteq> SelectorThrows"
  shows "last (fst (request env arg))
           = Resolve (attach_success (env_copy env) (request_query env arg)
                        (response_object status statusText) d)"
proof -
  let ?u = "the (q_ui (request_query env arg))"
  obtain hidden where "hideLoader env ?u None = (hidden, Inr ())"
    using hideLoader_returns [of env ?u] assms(5) by (auto simp add: request_query_ui)
  then show ?thesis
    using assms(1-4)
    by (simp add: request_def Let_def sendRequestFetch_def request_query_ui succeed_last
        succeed_nonempty)
qed

lemma attach_failure_onError:
  "q_onError (attach_failure c q x) = q_onError q"
  by (simp add: attach_failure_def addResponse_def split: copy.splits)

lemma request_jQuery_fail:
  assumes "env_jQuery env = Some (JqFail x)"
    and "q_onError (request_query env arg) = Some f"
    and "env_querySelector env (loader_selector (ajaxId_of env arg)) \<noteq> SelectorThrows"
  shows "last (fst (request env arg))
           = Reject (attach_failure (env_copy env) (request_query env arg) (parse_body env x))"
proof -
  let ?u = "the (q_ui (request_query env arg))"
  obtain hidden where "hideLoader env ?u None = (hidden, Inr ())"
    using hideLoader_returns [of env ?u] assms(3) by (auto simp add: request_query_ui)
  then show ?thesis
    using assms(1,2)
    by (simp add: request_def Let_def sendRequestJQuery_def request_query_ui requestFail_def
        attach_failure_onError)
qed

lemma demo_post_data_query:
  "env_stringify env = demo_stringify \<Longrightarrow>
   q_data (request_query env demo_post_data) = JStr ''{\"a\":1}''"
  "q_onError (request_query env demo_post_data) = Some (Callback ''failed'')"
  "ajaxId_of env demo_post_data = ''r2''"
  by (simp_all add: request_query_fields prepareQuery_callbacks prepareQuery_def
      resolve_contexts_fields encode_data_def fill_data_def queryUi_new_def demo_post_data_def
      params_empty_def ajaxId_of_def Let_def string_of_int_def decimal_def digit_char_def)

lemma demo_selector_r2:
  "demo_querySelector (loader_selector ''r2'') = FoundLoader"
  by (simp add: demo_querySelector_def loader_selector_def plain_id_def)

lemma request_query_requestData:
  "q_requestData (request_query env arg) = JUndefined"
proof -
  have "q_requestData (resolve_contexts q) = q_requestData q" for q
    by (simp add: resolve_contexts_def Let_def split: option.splits)
  moreover have "q_requestData (encode_data env q) = q_requestData q" for q
    by (simp add: encode_data_def)
  moreover have "q_requestData (fill_data q) = q_requestData q" for q
    by (simp add: fill_data_def split: node.splits)
  moreover have "q_requestData (queryUi_new env arg) = JUndefined"
    by (simp add: queryUi_new_def Let_def)
  ultimately show ?thesis
    by (simp add: request_query_def Let_def prepareQuery_def)
qed

lemma request_nonempty: "fst (request env arg) \<noteq> []"
  using request_start [of env arg] by auto

text \<open>
  C9 (amended). \<open>addResponse\<close> sets three fields: \<open>requestData\<close> becomes the \<open>data\<close> the
  descriptor held, \<open>response\<close> the transport's result and \<open>data\<close> the parsed body; every
  other field, and any property beyond the record's, is as before. In the documented
  copy this is how a result is attached, on success and on failure (where the body
  is the failure object's \<open>data\<close>); in the older copy \<open>src/httpUi.js\<close> success assigns
  \<open>data\<close> and \<open>response\<close>, failure assigns \<open>response\<close> only, and \<open>requestData\<close> is never
  set. Every descriptor a request resolves with is the one it sent with a result so
  attached, and every descriptor it rejects with is the one it sent with a failure so
  attached. When the lookup of the loader does not throw, a success through either
  transport resolves with the transport's response and body attached, and a jQuery
  failure with an \<open>onError\<close> callback rejects with the failure object, its body
  parsed where it parses, attached.
\<close>

theorem attached_result_fields:
  "q_requestData (addResponse q r d) = q_data q
   \<and> q_response (addResponse q r d) = Some r
   \<and> q_data (addResponse q r d) = d
   \<and> q_id (addResponse q r d) = q_id q
   \<and> q_url (addResponse q r d) = q_url q
   \<and> q_method (addResponse q r d) = q_method q
   \<and> q_headers (addResponse q r d) = q_headers q
   \<and> q_onSuccess (addResponse q r d) = q_onSuccess q
   \<and> q_onError (addResponse q r d) = q_onError q
   \<and> q_context (addResponse q r d) = q_context q
   \<and> q_contextLock (addResponse q r d) = q_contextLock q
   \<and> q_contextStatus (addResponse q r d) = q_contextStatus q
   \<and> q_ui (addResponse q r d) = q_ui q
   \<and> queryUi.more (addResponse q r d) = queryUi.more q
   \<and> attach_success Documented q r d = addResponse q r d
   \<and> attach_failure Documented q x = addResponse q x (x_data x)
   \<and> attach_success Older q r d = q\<lparr>q_data := d, q_response := Some r\<rparr>
   \<and> q_requestData (attach_success Older q r d) = q_requestData q
   \<and> attach_failure Older q x = q\<lparr>q_response := Some x\<rparr>
   \<and> q_requestData (attach_failure Older q x) = q_requestData q
   \<and> q_data (attach_failure Older q x) = q_data q
   \<and> (\<forall>q'. Resolve q' \<in> set (fst (request env arg)) \<longrightarrow>
          (\<exists>r' d'. q' = attach_success (env_copy env) (request_query env arg) r' d'))
   \<and> (\<forall>q'. Reject q' \<in> set (fst (request env arg)) \<longrightarrow>
          (\<exists>x'. q' = attach_failure (env_copy env) (request_query env arg) x'))
   \<and> (env_querySelector env (loader_selector (ajaxId_of env arg)) \<noteq> SelectorThrows \<longrightarrow>
        (env_jQuery env = Some (JqDone d r) \<longrightarrow>
           last (fst (request env arg))
             = Resolve (attach_success (env_copy env) (request_query env arg) r d))
        \<and> (env_jQuery env = None
            \<and> env_fetch env = FetchResponse status statusText (JsonBody d)
            \<and> 200 \<le> status \<and> status \<le> 299 \<longrightarrow>
           last (fst (request env arg))
             = Resolve (attach_success (env_copy env) (request_query env arg)
                          (response_object status statusText) d))
        \<and> (\<forall>f. env_jQuery env = Some (JqFail x)
                \<and> q_onError (request_query env arg) = Some f \<longrightarrow>
           last (fst (request env arg))
             = Reject (attach_failure (env_copy env) (request_query env arg)
                         (parse_body env x))))"
proof -
  have "\<forall>q'. Resolve q' \<in> set (fst (request env arg)) \<longrightarrow>
          (\<exists>r' d'. q' = attach_success (env_copy env) (request_query env arg) r' d')"
    and "\<forall>q'. Reject q' \<in> set (fst (request env arg)) \<longrightarrow>
          (\<exists>x'. q' = attach_failure (env_copy env) (request_query env arg) x')"
    using request_settled [of _ env arg] by blast+
  then show ?thesis
    by (simp add: addResponse_def attach_success_def attach_failure_def request_jQuery_done
        request_fetch_ok request_jQuery_fail)
qed

theorem attached_result_fields_witness:
  "env_querySelector demo_jq_env (loader_selector (ajaxId_of demo_jq_env demo_post_data))
     \<noteq> SelectorThrows
   \<and> env_querySelector demo_fetch_env (loader_selector (ajaxId_of demo_fetch_env demo_post_data))
     \<noteq> SelectorThrows
   \<and> env_querySelector demo_jq_fail_env
       (loader_selector (ajaxId_of demo_jq_fail_env demo_post_data)) \<noteq> SelectorThrows
   \<and> env_copy demo_jq_env = Documented
   \<and> env_jQuery demo_jq_env = Some (JqDone (JObj [(''ok'', JBool True)]) demo_xhr_200)
   \<and> q_data (request_query demo_jq_env demo_post_data) = JStr ''{\"a\":1}''
   \<and> (\<exists>q'. last (fst (request demo_jq_env demo_post_data)) = Resolve q'
          \<and> Resolve q' \<in> set (fst (request demo_jq_env demo_post_data))
          \<and> q_requestData q' = JStr ''{\"a\":1}''
          \<and> q_response q' = Some demo_xhr_200
          \<and> q_data q' = JObj [(''ok'', JBool True)])
   \<and> env_jQuery demo_fetch_env = None
   \<and> env_fetch demo_fetch_env = FetchResponse 200 ''OK'' (JsonBody (JObj [(''ok'', JBool True)]))
   \<and> (\<exists>q'. last (fst (request demo_fetch_env demo_post_data)) = Resolve q'
          \<and> q_requestData q' = JStr ''{\"a\":1}''
          \<and> q_response q' = Some (response_object 200 ''OK'')
          \<and> q_data q' = JObj [(''ok'', JBool True)])
   \<and> env_jQuery demo_jq_fail_env = Some (JqFail demo_xhr_422)
   \<and> q_onError (request_query demo_jq_fail_env demo_post_data) = Some (Callback ''failed'')
   \<and> (\<exists>q'. last (fst (request demo_jq_fail_env demo_post_data)) = Reject q'
          \<and> Reject q' \<in> set (fst (request demo_jq_fail_env demo_post_data))
          \<and> q_requestData q' = JStr ''{\"a\":1}''
          \<and> q_response q'
              = Some (demo_xhr_422\<lparr>x_data := JObj [(''message'', JStr ''Validation failed'')]\<rparr>)
          \<and> q_data q' = JObj [(''message'', JStr ''Validation failed'')])"
proof -
  have e: "env_stringify demo_jq_env = demo_stringify" "env_copy demo_jq_env = Documented"
    "env_querySelector demo_jq_env = demo_querySelector"
    "env_stringify demo_fetch_env = demo_stringify" "env_copy demo_fetch_env = Documented"
    "env_querySelector demo_fetch_env = demo_querySelector"
    "env_stringify demo_jq_fail_env = demo_stringify" "env_copy demo_jq_fail_env = Documented"
    "env_querySelector demo_jq_fail_env = demo_querySelector"
    "env_querySelector demo_env = demo_querySelector"
    "env_jQuery demo_jq_env = Some (JqDone (JObj [(''ok'', JBool True)]) demo_xhr_200)"
    "env_jQuery demo_fetch_env = None"
    "env_fetch demo_fetch_env = FetchResponse 200 ''OK'' (JsonBody (JObj [(''ok'', JBool True)]))"
    "env_jQuery demo_jq_fail_env = Some (JqFail demo_xhr_422)"
    by (simp_all add: demo_jq_env_def demo_fetch_env_def demo_jq_fail_env_def demo_env_def)
  have p: "parse_body demo_jq_fail_env demo_xhr_422
             = demo_xhr_422\<lparr>x_data := JObj [(''message'', JStr ''Validation failed'')]\<rparr>"
    by (simp add: parse_body_def demo_jq_fail_env_def demo_env_def demo_xhr_422_def demo_parse_def)
  have "last (fst (request demo_jq_env demo_post_data))
          = Resolve (addResponse (request_query demo_jq_env demo_post_data) demo_xhr_200
                       (JObj [(''ok'', JBool True)]))"
    using attached_result_fields [where env = demo_jq_env and arg = demo_post_data
        and q = "request_query demo_jq_env demo_post_data"
        and r = demo_xhr_200 and d = "JObj [(''ok'', JBool True)]"]
    by (simp add: e demo_post_data_query demo_selector_r2 attach_success_def)
  moreover have "last (fst (request demo_fetch_env demo_post_data))
          = Resolve (addResponse (request_query demo_fetch_env demo_post_data)
                       (response_object 200 ''OK'') (JObj [(''ok'', JBool True)]))"
    using attached_result_fields [where env = demo_fetch_env and arg = demo_post_data
        and q = "request_query demo_fetch_env demo_post_data"
        and d = "JObj [(''ok'', JBool True)]" and status = 200 and statusText = "''OK''"]
    by (simp add: e demo_post_data_query demo_selector_r2 attach_success_def)
  moreover have "last (fst (request demo_jq_fail_env demo_post_data))
          = Reject (addResponse (request_query demo_jq_fail_env demo_post_data)
                      (demo_xhr_422\<lparr>x_data := JObj [(''message'', JStr ''Validation failed'')]\<rparr>)
                      (JObj [(''message'', JStr ''Validation failed'')]))"
    using attached_result_fields [where env = demo_jq_fail_env and arg = demo_post_data
        and q = "request_query demo_jq_fail_env demo_post_data" and x = demo_xhr_422]
    by (simp add: e p demo_post_data_query demo_selector_r2 attach_failure_def)
  moreover have "last (fst (request env demo_post_data)) \<in> set (fst (request env demo_post_data))"
    for env
    using request_nonempty [of env demo_post_data] by simp
  ultimately show ?thesis
    by (simp add: e demo_post_data_query demo_selector_r2 addResponse_def)
       (metis last_in_set request_nonempty)
qed

text \<open>
  As stated for both copies the property fails. In the older copy a successful
  request that sent the JSON text of its object resolves with a descriptor whose
  \<open>requestData\<close> is still undefined: the payload sent is overwritten by the parsed
  body and kept nowhere.
\<close>

theorem older_copy_keeps_no_requestData:
  "env_copy demo_older_env = Older
   \<and> env_jQuery demo_older_env = Some (JqDone (JObj [(''ok'', JBool True)]) demo_xhr_200)
   \<and> q_data (request_query demo_older_env demo_post_data) = JStr ''{\"a\":1}''
   \<and> (\<exists>q'. last (fst (request demo_older_env demo_post_data)) = Resolve q'
          \<and> q_data q' = JObj [(''ok'', JBool True)]
          \<and> q_response q' = Some demo_xhr_200
          \<and> q_requestData q' = JUndefined
          \<and> q_requestData q' \<noteq> q_data (request_query demo_older_env demo_post_data))"
proof -
  have e: "env_stringify demo_older_env = demo_stringify" "env_copy demo_older_env = Older"
    "env_querySelector demo_older_env = demo_querySelector"
    "env_jQuery demo_older_env = Some (JqDone (JObj [(''ok'', JBool True)]) demo_xhr_200)"
    by (simp_all add: demo_older_env_def demo_jq_env_def demo_env_def)
  have "last (fst (request demo_older_env demo_post_data))
          = Resolve (attach_success Older (request_query demo_older_env demo_post_data)
                       demo_xhr_200 (JObj [(''ok'', JBool True)]))"
    using request_jQuery_done [of demo_older_env "JObj [(''ok'', JBool True)]" demo_xhr_200
        demo_post_data]
    by (simp add: e demo_post_data_query demo_selector_r2)
  moreover have "q_requestData (request_query demo_older_env demo_post_data) = JUndefined"
    by (rule request_query_requestData)
  ultimately show ?thesis
    by (simp add: e demo_post_data_query attach_success_def)
qed

subsection \<open>The failure handler\<close>

lemma demo_url_query:
  "q_ui (request_query demo_env (Url ''/x''))
     = Some \<lparr>ui_id = ''1700-ff'', ui_context = HTMLElement demo_body,
             ui_contextLock = HTMLElement demo_body, ui_contextStatus = HTMLElement demo_body\<rparr>"
  "q_onError (request_query demo_env (Url ''/x'')) = None"
  "q_context (request_query demo_env (Url ''/x'')) = HTMLElement demo_body"
  by (simp_all add: request_query_ui request_query_fields prepareQuery_contextLock
      prepareQuery_contextStatus prepareQuery_context queryUi_new_def params_empty_def
      ajaxId_of_def decimal_def hex_def digit_char_def prepareQuery_def resolve_contexts_def
      encode_data_def fill_data_def Let_def demo_env_def)

text \<open>
  With an \<open>onError\<close> callback the handler reaches \<open>reject(query)\<close> whenever the lookup
  of the loader returns.
\<close>

lemma requestFail_onError:
  assumes "q_ui query = Some u" and "q_onError query = Some f"
    and "hideLoader env u None = (hidden, Inr ())"
  shows "requestFail env x query =
           (hidden @
            [OnError f (q_context query) (parse_body env x)
               (attach_failure (env_copy env) query (parse_body env x)),
             Reject (attach_failure (env_copy env) query (parse_body env x))],
            Inr ())"
  using assms
  by (simp add: requestFail_def Let_def attach_failure_def addResponse_def split: copy.splits)

text \<open>Without one it reaches \<open>reject(query)\<close> exactly when \<open>displayAlert\<close> returns too.\<close>

lemma requestFail_default_alert:
  assumes "q_ui query = Some u" and "q_onError query = None"
    and "hideLoader env u None = (hidden, Inr ())"
  shows "requestFail env x query =
           (case displayAlert env (attach_failure (env_copy env) query (parse_body env x)) of
              (shown, Inl e) \<Rightarrow> (hidden @ shown, Inl e)
            | (shown, Inr r) \<Rightarrow>
                (hidden @ shown
                   @ [Reject (attach_failure (env_copy env) query (parse_body env x))],
                 Inr ()))"
  using assms
  by (simp add: requestFail_def Let_def attach_failure_def addResponse_def
      split: prod.splits sum.splits copy.splits)

text \<open>
  A request through \<open>fetch\<close> that meets a network failure and has no \<open>onError\<close>
  shows the generic alert for an \<open>Error\<close> object; an exception escapes the handler and
  nothing settles the promise.
\<close>

lemma getErrorText_error_object:
  "getErrorText error_object = Some ''An error occurred: undefined undefined''"
  by (simp add: getErrorText_def error_object_def status_text_def text_or_undefined_def
      errorsMap_def object_prototype_names_def)

lemma displayAlert_error_object:
  assumes "q_ui query = Some u"
  shows "snd (displayAlert env (attach_failure (env_copy env) query error_object)) = Inl TypeError"
  using assms
  by (simp add: displayAlert_def attach_failure_def addResponse_def page_expired_def
      showAlertUnexpected_def showAlert_def getErrorText_error_object split: copy.splits)
     (simp add: error_object_def)

lemma fetch_failure_default_alert_throws:
  assumes "env_jQuery env = None" and "env_fetch env = FetchFailed"
    and "p_onError (params_of arg) = None"
  shows "\<exists>e. snd (request env arg) = Inl e"
    and "Reject q \<notin> set (fst (request env arg))"
    and "Resolve q \<notin> set (fst (request env arg))"
proof -
  let ?q = "request_query env arg"
  obtain u where u: "q_ui ?q = Some u"
    by (simp add: request_query_ui)
  have n: "q_onError ?q = None"
    using assms(3) by (simp add: request_query_fields prepareQuery_callbacks)
  have p: "parse_body env error_object = error_object"
    by (simp add: parse_body_def error_object_def)
  obtain shown where a:
    "displayAlert env (attach_failure (env_copy env) ?q error_object) = (shown, Inl TypeError)"
    using displayAlert_error_object [OF u, of env] by (cases "displayAlert env (attach_failure (env_copy env) ?q error_object)") simp
  have shown: "\<not> is_settled e" if "e \<in> set shown" for e
    using displayAlert_not_settled [of e env "attach_failure (env_copy env) ?q error_object"] a that
    by simp
  obtain hidden r where h: "hideLoader env u None = (hidden, r)"
    by (cases "hideLoader env u None")
  have hidden: "\<not> is_settled e" if "e \<in> set hidden" for e
    using hideLoader_not_settled [of e env u None] h that by simp
  have "\<exists>evs e. requestFail env error_object ?q = (evs, Inl e)
             \<and> set evs \<subseteq> set hidden \<union> set shown"
  proof (cases r)
    case (Inl e)
    then have "requestFail env error_object ?q = (hidden, Inl e)"
      using u h by (simp add: requestFail_def)
    then show ?thesis by auto
  next
    case (Inr v)
    then have "requestFail env error_object ?q = (hidden @ shown, Inl TypeError)"
      using requestFail_default_alert [OF u n, of env hidden error_object] h a p by simp
    then show ?thesis by auto
  qed
  then obtain evs e where r: "requestFail env error_object ?q = (evs, Inl e)"
    and evs: "set evs \<subseteq> set hidden \<union> set shown"
    by blast
  have t: "request env arg = (remAlerts u @ displayLoader u None None @ [Fetch ?q] @ evs, Inl e)"
    by (simp add: request_def Let_def assms(1,2) sendRequestFetch_def u r)
  show "\<exists>e. snd (request env arg) = Inl e" by (simp add: t)
  have "\<not> is_settled e" if "e \<in> set (fst (request env arg))" for e
    using that evs hidden shown by (auto simp add: t remAlerts_def displayLoader_def)
  then show "Reject q \<notin> set (fst (request env arg))"
    and "Resolve q \<notin> set (fst (request env arg))"
    by force+
qed

text \<open>
  C1. The failure handler hides the loader, parses the body, attaches the failure
  object and renders the default alert, but it does not reach \<open>reject(query)\<close> when
  the alert throws. Here \<open>fetch\<close> rejects (the network is down), jQuery is not loaded
  and the caller gave no \<open>onError\<close>: \<open>showAlertUnexpected\<close> shows the alert, reads
  \<open>jqXHR.status.toString()\<close> of an \<open>Error\<close> and throws. The trace has no \<open>Reject\<close>: the
  promise stays pending.
\<close>

theorem fetch_failure_never_rejects:
  "request demo_env (Url ''/x'') =
     ([RemAlerts (HTMLElement demo_body),
       DisplayLoader (HTMLElement demo_body) ''1700-ff'',
       Fetch (request_query demo_env (Url ''/x'')),
       HideLoader ''1700-ff'',
       AlertUnexpected (HTMLElement demo_body) ''An error occurred: undefined undefined''],
      Inl TypeError)"
proof -
  let ?u = "\<lparr>ui_id = ''1700-ff'', ui_context = HTMLElement demo_body,
             ui_contextLock = HTMLElement demo_body, ui_contextStatus = HTMLElement demo_body\<rparr>"
  have e: "env_jQuery demo_env = None" "env_fetch demo_env = FetchFailed"
    "env_parse demo_env = demo_parse" "env_copy demo_env = Documented"
    "env_close_button demo_env = (\<lambda>i. True)"
    by (simp_all add: demo_env_def)
  have l: "hideLoader demo_env ?u None = ([HideLoader ''1700-ff''], Inr ())"
    by (simp add: hideLoader_def loader_selector_def demo_env_def demo_querySelector_def
        plain_id_def)
  have h: "escapeHtml ''An error occurred: undefined undefined''
             = ''An error occurred: undefined undefined''"
    by (simp add: escapeHtml_entities html_entity_def)
  have a: "displayAlert demo_env
             (attach_failure Documented (request_query demo_env (Url ''/x'')) error_object)
             = ([AlertUnexpected (HTMLElement demo_body) ''An error occurred: undefined undefined''],
                Inl TypeError)"
    by (simp add: displayAlert_def attach_failure_def addResponse_def demo_url_query
        page_expired_def showAlertUnexpected_def showAlert_def getErrorText_error_object h e)
       (simp add: error_object_def)
  have p: "parse_body demo_env error_object = error_object"
    by (simp add: parse_body_def error_object_def)
  show ?thesis
    by (simp add: request_def Let_def e sendRequestFetch_def demo_url_query remAlerts_def
        displayLoader_def
        requestFail_default_alert [OF demo_url_query(1) demo_url_query(2) l]
        p a)
qed

subsection \<open>The default alert\<close>

text \<open>
  C2. \<open>displayAlert\<close> tests \<open>responseText.indexOf('Page Expired') > 0\<close>, so a body that
  starts with the marker does not count as containing it: for status 419, no
  structured data and the body \<open>Page Expired\<close> the generic alert is shown, not the
  page-expired one.
\<close>

theorem page_expired_marker_at_start:
  "typeof (x_data demo_xhr_419) \<noteq> ''object''
   \<and> x_status demo_xhr_419 = Some 419
   \<and> x_responseText demo_xhr_419 = Some ''Page Expired''
   \<and> indexOf ''Page Expired'' ''Page Expired'' = 0
   \<and> displayAlert demo_env demo_failed_419 =
       ([AlertUnexpected (HTMLElement demo_body) ''An error occurred: 419 unknown status'',
         ErrorReport ''419'' ''unknown status'' ''Page Expired''],
        Inr ())"
proof -
  have g: "getErrorText demo_xhr_419 = Some ''An error occurred: 419 unknown status''"
    by (simp add: getErrorText_def demo_xhr_419_def status_text_def text_or_undefined_def
        errorsMap_def object_prototype_names_def string_of_int_def decimal_def digit_char_def)
  have h: "escapeHtml ''An error occurred: 419 unknown status''
             = ''An error occurred: 419 unknown status''"
    "escapeHtml ''419'' = ''419''" "escapeHtml ''unknown status'' = ''unknown status''"
    "escapeHtml ''Page Expired'' = ''Page Expired''"
    by (simp_all add: escapeHtml_entities html_entity_def)
  have s: "string_of_int 419 = ''419''"
    by (simp add: string_of_int_def decimal_def digit_char_def)
  have x: "x_data demo_xhr_419 = JUndefined" "x_status demo_xhr_419 = Some 419"
    "x_statusText demo_xhr_419 = Some ''unknown status''"
    "x_responseText demo_xhr_419 = Some ''Page Expired''"
    by (simp_all add: demo_xhr_419_def)
  have i: "indexOf ''Page Expired'' ''Page Expired'' = 0"
    by (simp add: indexOf_def)
  have e: "env_close_button demo_env = (\<lambda>i. True)" "env_detail_button demo_env = (\<lambda>i. True)"
    by (simp_all add: demo_env_def)
  have "displayAlert demo_env demo_failed_419 =
       ([AlertUnexpected (HTMLElement demo_body) ''An error occurred: 419 unknown status'',
         ErrorReport ''419'' ''unknown status'' ''Page Expired''],
        Inr ())"
    by (simp add: displayAlert_def demo_failed_419_def addResponse_def demo_url_query
        page_expired_def showAlertUnexpected_def showAlert_def x i g h s e)
  then show ?thesis by (simp add: x i)
qed

text \<open>The same response with the marker inside an HTML page gives the page-expired alert.\<close>

lemma page_expired_marker_inside:
  "displayAlert demo_env
     (addResponse (request_query demo_env (Url ''/x'')) demo_xhr_419_html JUndefined)
     = ([AlertExtended (HTMLElement demo_body)
           ''<strong>Page Expired</strong><ul><li>Please reload the page.</li></ul>''],
        Inr ())"
proof -
  let ?u = "\<lparr>ui_id = ''1700-ff'', ui_context = HTMLElement demo_body,
             ui_contextLock = HTMLElement demo_body, ui_contextStatus = HTMLElement demo_body\<rparr>"
  have x: "x_data demo_xhr_419_html = JUndefined" "x_status demo_xhr_419_html = Some 419"
    "x_responseText demo_xhr_419_html = Some ''<title>Page Expired</title>''"
    by (simp_all add: demo_xhr_419_html_def demo_xhr_419_def)
  have i: "indexOf ''<title>Page Expired</title>'' ''Page Expired'' = 7"
    by (simp add: indexOf_def)
  have "snd (showAlertPageExpired demo_env ?u) = Inr ()"
    by (simp add: showAlertPageExpired_def showAlertExtended_def showAlert_def pageExpired_data_def
        errorsToUlTree_def demo_env_def)
  then have "showAlertPageExpired demo_env ?u
     = ([AlertExtended (HTMLElement demo_body)
           ''<strong>Page Expired</strong><ul><li>Please reload the page.</li></ul>''],
        Inr ())"
    using showAlertPageExpired_events [of demo_env ?u]
    by (cases "showAlertPageExpired demo_env ?u") simp
  then show ?thesis
    by (simp add: displayAlert_def addResponse_def demo_url_query page_expired_def x i)
qed

end
